theory Spec2Isabelle
  imports Main "HOL-Library.Word"
begin

unbundle bit_operations_syntax

section \<open>Exceptions\<close>

text \<open>
  The exceptions the modelled functions raise.  A function that can raise returns
  a sum: \<open>Inl\<close> carries the exception, \<open>Inr\<close> the value returned.
\<close>

record response =
  status :: int
  reqpath :: string

datatype error =
    VirtualInterfaceCreateException
  | InstanceNotFound
  | HttpError response
  | OtherException string
  | AttributeError
  | UniqueDiskDiscoveryException string nat
  | ClusterNotFoundByName
  | TooManyClustersFound
  | NoConfigNoClusterFound
  | NoConfigTooManyClusters
  | InstanceDiskMappingFailed

section \<open>tasks/network.py: plugging the virtual network interfaces\<close>

text \<open>
  The partition states of the REST client library.  Only \<open>NOT_ACTIVATED\<close>,
  \<open>RUNNING\<close> and \<open>ACTIVE\<close> are named by this code; every other value of the
  library's enumerations is an \<open>OTHER\<close> value.
\<close>

datatype LPARState = NOT_ACTIVATED | RUNNING | OTHER_LPAR_STATE nat

datatype RMCState = ACTIVE | OTHER_RMC_STATE nat

record lpar_wrap =
  state :: LPARState
  rmc_state :: RMCState

record cna =
  mac :: string
  vswitch_uri :: string

record vif =
  address :: string
  vif_id :: string

text \<open>\<open>state_ok_for_plug\<close>, with its if / elif / fall-through order.\<close>

definition state_ok_for_plug :: "lpar_wrap \<Rightarrow> bool" where
  "state_ok_for_plug lw =
     (if state lw = NOT_ACTIVATED then True
      else if state lw = RUNNING \<and> rmc_state lw = ACTIVE then True
      else False)"

text \<open>
  The inner \<open>for cna_w in cna_w_list\<close> loop of \<open>PlugVifs.execute\<close>: \<open>True\<close> when
  the loop leaves through \<open>break\<close>, \<open>False\<close> when it runs to its \<open>else\<close> branch.
  \<open>norm_mac\<close> is \<open>vm.norm_mac\<close>, a parameter.
\<close>

fun cna_loop_breaks :: "(string \<Rightarrow> string) \<Rightarrow> cna list \<Rightarrow> vif \<Rightarrow> bool" where
  "cna_loop_breaks norm_mac [] v = False"
| "cna_loop_breaks norm_mac (c # cs) v =
     (if norm_mac (mac c) = address v then True else cna_loop_breaks norm_mac cs v)"

text \<open>The outer loop, which appends to \<open>crt_vifs\<close> the VIFs still to create.\<close>

fun trim_vifs :: "(string \<Rightarrow> string) \<Rightarrow> cna list \<Rightarrow> vif list \<Rightarrow> vif list \<Rightarrow> vif list" where
  "trim_vifs norm_mac cna_w_list [] crt_vifs = crt_vifs"
| "trim_vifs norm_mac cna_w_list (v # vs) crt_vifs =
     trim_vifs norm_mac cna_w_list vs
       (if cna_loop_breaks norm_mac cna_w_list v then crt_vifs else crt_vifs @ [v])"

text \<open>
  The hypervisor's side of the VM is the list of its Client Network Adapters.
  \<open>vm.get_cnas\<close> reads that list; \<open>vm.crt_vif\<close> adds the adapter \<open>new_cna vif\<close>
  to it (\<open>new_cna\<close> is a parameter: the adapter the hypervisor builds for a VIF).
  The creation loop runs inside the \<open>with wait_for_instance_event\<close> block.
\<close>

fun crt_vif_loop :: "(vif \<Rightarrow> cna) \<Rightarrow> cna list \<Rightarrow> vif list \<Rightarrow> cna list" where
  "crt_vif_loop new_cna hyp [] = hyp"
| "crt_vif_loop new_cna hyp (v # vs) = crt_vif_loop new_cna (hyp @ [new_cna v]) vs"

text \<open>
  What leaving the \<open>with\<close> block does: the wait for the events ends normally,
  or raises \<open>eventlet.timeout.Timeout\<close>, or an event fails and the framework calls
  \<open>_vif_callback_failed\<close>, which raises when \<open>CONF.vif_plugging_is_fatal\<close>.
\<close>

datatype wait_outcome = WaitDone | WaitTimeout | WaitEventFailed string

definition vif_callback_failed :: "bool \<Rightarrow> error option" where
  "vif_callback_failed vif_plugging_is_fatal =
     (if vif_plugging_is_fatal then Some VirtualInterfaceCreateException else None)"

definition leave_wait :: "bool \<Rightarrow> wait_outcome \<Rightarrow> error option" where
  "leave_wait vif_plugging_is_fatal w =
     (case w of
        WaitDone \<Rightarrow> None
      | WaitTimeout \<Rightarrow> Some VirtualInterfaceCreateException
      | WaitEventFailed ev \<Rightarrow> vif_callback_failed vif_plugging_is_fatal)"

text \<open>
  \<open>PlugVifs.execute\<close>.  The result is the hypervisor's adapter list after the
  call, and the exception raised or the value returned (provided as \<open>vm_cnas\<close>).
\<close>

definition PlugVifs_execute ::
  "(string \<Rightarrow> string) \<Rightarrow> (vif \<Rightarrow> cna) \<Rightarrow> bool \<Rightarrow> wait_outcome \<Rightarrow> vif list \<Rightarrow>
   lpar_wrap \<Rightarrow> cna list \<Rightarrow> cna list \<times> (error + cna list)" where
  "PlugVifs_execute norm_mac new_cna vif_plugging_is_fatal w network_info lw hyp =
     (if \<not> state_ok_for_plug lw then (hyp, Inl VirtualInterfaceCreateException)
      else
        let cna_w_list = hyp;
            crt_vifs = trim_vifs norm_mac cna_w_list network_info [];
            hyp' = crt_vif_loop new_cna hyp crt_vifs
        in case leave_wait vif_plugging_is_fatal w of
             Some e \<Rightarrow> (hyp', Inl e)
           | None \<Rightarrow> (hyp', Inr cna_w_list))"

section \<open>driver.py: the spawn flow\<close>

record conn_info =
  driver_volume_type :: "string option"

record bdm =
  connection_info :: "conn_info option"
  boot_index :: "int option"

text \<open>
  \<open>block_device_info\<close> is \<open>None\<close> or a dict; its key \<open>block_device_mapping\<close>
  is absent, or holds \<open>None\<close>, or holds the list of block device mappings.
\<close>

datatype bdi_mapping = KeyAbsent | NoneValue | Mapping "bdm list"

type_synonym block_device_info = "bdi_mapping option"

text \<open>\<open>_extract_bdm\<close>: \<open>dict.get\<close> with the default \<open>[]\<close>; a stored \<open>None\<close> is returned as it is.\<close>

definition extract_bdm :: "block_device_info \<Rightarrow> bdm list option" where
  "extract_bdm bdi =
     (case bdi of
        None \<Rightarrow> Some []
      | Some KeyAbsent \<Rightarrow> Some []
      | Some NoneValue \<Rightarrow> None
      | Some (Mapping l) \<Rightarrow> Some l)"

text \<open>
  \<open>_is_booted_from_volume\<close>.  \<open>get_root_bdm\<close> and \<open>block_device_info_get_mapping\<close>
  belong to the orchestrator and are parameters.
\<close>

definition is_booted_from_volume ::
  "(bdm list \<Rightarrow> bdm option) \<Rightarrow> (block_device_info \<Rightarrow> bdm list) \<Rightarrow> block_device_info \<Rightarrow> bool" where
  "is_booted_from_volume get_root_bdm block_device_info_get_mapping bdi =
     (get_root_bdm (block_device_info_get_mapping bdi) \<noteq> None)"

type_synonym vol_driver = string

record flavor =
  root_gb :: int

datatype task =
    Create
  | PlugVifs
  | PlugMgmtVif
  | CreateDiskForImg int
  | ConnectDisk
  | ConnectVolume "vol_driver option" conn_info
  | SaveBDM bdm
  | CreateAndConnectCfgDrive
  | PowerOn

text \<open>A linear flow is the list of its tasks in the order they run; \<open>flow.add\<close> appends.\<close>

definition flow_add :: "task list \<Rightarrow> task \<Rightarrow> task list" where
  "flow_add flow t = flow @ [t]"

text \<open>\<open>self.vol_drvs.get(drv_type)\<close>, where \<open>drv_type\<close> may itself be \<open>None\<close>.\<close>

definition vol_drvs_get :: "(string \<rightharpoonup> vol_driver) \<Rightarrow> string option \<Rightarrow> vol_driver option" where
  "vol_drvs_get vol_drvs drv_type = (case drv_type of None \<Rightarrow> None | Some t \<Rightarrow> vol_drvs t)"

text \<open>
  The \<open>for bdm in bdms\<close> loop of \<open>spawn\<close>.  \<open>conn_info.get\<close> on a \<open>connection_info\<close>
  that is \<open>None\<close> raises \<open>AttributeError\<close>.
\<close>

fun add_volume_tasks ::
  "(string \<rightharpoonup> vol_driver) \<Rightarrow> task list \<Rightarrow> bdm list \<Rightarrow> error + task list" where
  "add_volume_tasks vol_drvs flow [] = Inr flow"
| "add_volume_tasks vol_drvs flow (b # bs) =
     (case connection_info b of
        None \<Rightarrow> Inl AttributeError
      | Some ci \<Rightarrow>
          let vol_drv = vol_drvs_get vol_drvs (driver_volume_type ci);
              flow1 = flow_add flow (ConnectVolume vol_drv ci);
              flow2 = flow_add flow1 (SaveBDM b)
          in add_volume_tasks vol_drvs flow2 bs)"

text \<open>
  The flow that \<open>spawn\<close> builds and hands to the engine.  \<open>db_flavor\<close> is the flavor
  looked up when none is passed; \<open>cfg_drive_required\<close> is \<open>configdrive.required_by(instance)\<close>.
\<close>

definition spawn_flow ::
  "(bdm list \<Rightarrow> bdm option) \<Rightarrow> (block_device_info \<Rightarrow> bdm list) \<Rightarrow>
   (string \<rightharpoonup> vol_driver) \<Rightarrow> flavor \<Rightarrow> bool \<Rightarrow> flavor option \<Rightarrow> block_device_info \<Rightarrow>
   error + task list" where
  "spawn_flow get_root_bdm block_device_info_get_mapping vol_drvs db_flavor
              cfg_drive_required flavor_arg bdi =
     (let flv = (case flavor_arg of None \<Rightarrow> db_flavor | Some f \<Rightarrow> f);
          flow0 = [];
          flow1 = flow_add flow0 Create;
          flow2 = flow_add flow1 PlugVifs;
          flow3 = flow_add flow2 PlugMgmtVif;
          flow4 = (if \<not> is_booted_from_volume get_root_bdm block_device_info_get_mapping bdi
                   then flow_add (flow_add flow3 (CreateDiskForImg (root_gb flv))) ConnectDisk
                   else flow3);
          bdms = extract_bdm bdi
      in case (case bdms of None \<Rightarrow> Inr flow4
               | Some l \<Rightarrow> add_volume_tasks vol_drvs flow4 l) of
           Inl e \<Rightarrow> Inl e
         | Inr flow5 \<Rightarrow>
             let flow6 = (if cfg_drive_required then flow_add flow5 CreateAndConnectCfgDrive
                          else flow5)
             in Inr (flow_add flow6 PowerOn))"

text \<open>
  The two tasks the claim about \<open>spawn\<close> names for one block device mapping:
  connect the volume, then save the mapping.  This follows the specification's
  words and is what the loop above is compared with.
\<close>

definition spec_volume_tasks :: "(string \<rightharpoonup> vol_driver) \<Rightarrow> bdm \<Rightarrow> task list" where
  "spec_volume_tasks vol_drvs b =
     (case connection_info b of
        None \<Rightarrow> []
      | Some ci \<Rightarrow> [ConnectVolume (vol_drvs_get vol_drvs (driver_volume_type ci)) ci, SaveBDM b])"

section \<open>driver.py: destroy\<close>

text \<open>
  The fragment of regular expressions that \<open>destroy\<close> uses: literal text and \<open>.*\<close>,
  where \<open>.\<close> matches every character but the newline.
\<close>

datatype re_piece = Lit string | DotStar

fun match_here :: "re_piece list \<Rightarrow> string \<Rightarrow> bool" where
  "match_here [] s = True"
| "match_here (Lit l # ps) s =
     (if take (length l) s = l then match_here ps (drop (length l) s) else False)"
| "match_here (DotStar # ps) [] = match_here ps []"
| "match_here (DotStar # ps) (c # cs) =
     (if match_here ps (c # cs) then True
      else if c = CHR 0x0A then False
      else match_here (DotStar # ps) cs)"

text \<open>\<open>re.search\<close>: a match may start at any position.\<close>

fun re_search :: "re_piece list \<Rightarrow> string \<Rightarrow> bool" where
  "re_search ps [] = match_here ps []"
| "re_search ps (c # cs) = (if match_here ps (c # cs) then True else re_search ps cs)"

text \<open>\<open>exp = '/ManagedSystem/.*/LogicalPartition/.*-.*-.*-.*-.*'\<close>\<close>

definition lpar_path_exp :: "re_piece list" where
  "lpar_path_exp =
     [Lit ''/ManagedSystem/'', DotStar, Lit ''/LogicalPartition/'', DotStar,
      Lit ''-'', DotStar, Lit ''-'', DotStar, Lit ''-'', DotStar, Lit ''-'', DotStar]"

datatype task_state = RESIZE_REVERTING | OTHER_TASK_STATE string

text \<open>The \<open>except\<close> clauses of \<open>destroy\<close>: \<open>None\<close> is a normal return, \<open>Some e\<close> re-raises.\<close>

definition destroy_except :: "error \<Rightarrow> error option" where
  "destroy_except e =
     (case e of
        InstanceNotFound \<Rightarrow> None
      | HttpError resp \<Rightarrow>
          if status resp = 404 \<and> re_search lpar_path_exp (reqpath resp) then None
          else Some (HttpError resp)
      | _ \<Rightarrow> Some e)"

text \<open>
  The body of the \<open>try\<close> statement of \<open>destroy\<close>.  \<open>get_pvm_uuid\<close> is the
  outcome of \<open>vm.get_pvm_uuid(instance)\<close> and \<open>run_flow\<close> the outcome of building
  and running the destroy flow for that UUID.  \<open>None\<close>: no exception; \<open>Some e\<close>:
  the body raises \<open>e\<close>.
\<close>

definition destroy_try_body :: "error + string \<Rightarrow> (string \<Rightarrow> error option) \<Rightarrow> error option" where
  "destroy_try_body get_pvm_uuid run_flow =
     (case get_pvm_uuid of Inl e \<Rightarrow> Some e | Inr pvm_inst_uuid \<Rightarrow> run_flow pvm_inst_uuid)"

text \<open>
  \<open>destroy\<close>.  The result is \<open>None\<close> when \<open>destroy\<close> returns, \<open>Some e\<close> when it
  raises \<open>e\<close>.  A destroy during a resize revert returns before the \<open>try\<close>.
\<close>

definition destroy ::
  "task_state option \<Rightarrow> error + string \<Rightarrow> (string \<Rightarrow> error option) \<Rightarrow> error option" where
  "destroy ts get_pvm_uuid run_flow =
     (if ts = Some RESIZE_REVERTING then None
      else case destroy_try_body get_pvm_uuid run_flow of
             None \<Rightarrow> None
           | Some e \<Rightarrow> destroy_except e)"

section \<open>Storage wrappers\<close>

datatype LUType = DISK | IMAGE

record LU =
  name :: string
  udid :: string
  lu_type :: LUType
  cloned_from_udid :: string

record client_adapter =
  slot_number :: int
  lpar_id :: int

record VSCSIMapping =
  client_adapter :: client_adapter
  backing_storage :: LU

section \<open>mgmt.py: discovering a mapped disk\<close>

definition hex_digit :: "nat \<Rightarrow> char" where
  "hex_digit d = ''0123456789abcdef'' ! d"

fun hex_nat :: "nat \<Rightarrow> string" where
  "hex_nat n = (if n < 16 then [hex_digit n] else hex_nat (n div 16) @ [hex_digit (n mod 16)])"

declare hex_nat.simps [simp del]

text \<open>The \<open>%x\<close> conversion of an integer.\<close>

definition fmt_x :: "int \<Rightarrow> string" where
  "fmt_x i = (if i < 0 then CHR ''-'' # hex_nat (nat (- i)) else hex_nat (nat i))"

text \<open>\<open>lslot = 0x30000000 | mapping.client_adapter.slot_number\<close>\<close>

definition linux_slot :: "VSCSIMapping \<Rightarrow> int" where
  "linux_slot m = 0x30000000 OR slot_number (client_adapter m)"

text \<open>\<open>udid[-32:]\<close>: the last 32 characters, or the whole string when it is shorter.\<close>

definition last32 :: "string \<Rightarrow> string" where
  "last32 u = drop (length u - 32) u"

definition scan_pattern :: "int \<Rightarrow> string" where
  "scan_pattern lslot = ''/sys/bus/vio/devices/'' @ fmt_x lslot @ ''/host*/scsi_host/host*/scan''"

definition dpathpat :: "string \<Rightarrow> string" where
  "dpathpat u = ''/dev/disk/by-id/*'' @ u"

text \<open>
  The operating system of the management partition, over a state \<open>'fs\<close>:
  \<open>glob.glob\<close>, \<open>linuxscsi.echo_scsi_command\<close> and \<open>path.realpath\<close>.
\<close>

record 'fs host_os =
  glob :: "'fs \<Rightarrow> string \<Rightarrow> string list"
  echo_scsi_command :: "string \<Rightarrow> string \<Rightarrow> 'fs \<Rightarrow> 'fs"
  realpath :: "'fs \<Rightarrow> string \<Rightarrow> string"

text \<open>The loop that scans every bus the first glob yields.\<close>

fun scan_loop :: "'fs host_os \<Rightarrow> string list \<Rightarrow> 'fs \<Rightarrow> 'fs" where
  "scan_loop os [] fs = fs"
| "scan_loop os (scanpath # rest) fs = scan_loop os rest (echo_scsi_command os scanpath ''- - -'' fs)"

definition discover_vscsi_disk :: "'fs host_os \<Rightarrow> VSCSIMapping \<Rightarrow> 'fs \<Rightarrow> 'fs \<times> (error + string)" where
  "discover_vscsi_disk os m fs =
     (let lslot = linux_slot m;
          u = last32 (udid (backing_storage m));
          fs' = scan_loop os (glob os fs (scan_pattern lslot)) fs;
          disks = glob os fs' (dpathpat u)
      in if length disks \<noteq> 1
         then (fs', Inl (UniqueDiskDiscoveryException (dpathpat u) (length disks)))
         else (fs', Inr (realpath os fs' (disks ! 0))))"

section \<open>disk/ssp.py: the Shared Storage Pool disk adapter\<close>

text \<open>
  The module \<open>disk/ssp.py\<close> is known through its unit tests and the specification
  only.  Its operations are modelled below from those; the calls into the REST
  client library (\<open>search\<close>, \<open>read\<close>, \<open>upload_new_lu\<close>, \<open>crt_lu_linked_clone\<close>,
  \<open>add_vscsi_mapping\<close>) and the name sanitizer are parameters.
\<close>

text \<open>
  Modelled from the spec: the REST calls of the cluster discovery that the unit tests
  count, a search of clusters by name and a read of a feed.
\<close>

datatype adapter_call = Search string | Read string

text \<open>
  Modelled from the spec: \<open>SSPDiskAdapter._fetch_cluster\<close>, run by the constructor.
  With a configured \<open>cluster_name\<close> it searches clusters by that name, otherwise it
  reads the \<open>Cluster\<close> feed; zero or several clusters raise the exception of that
  branch, and the single cluster found is kept.  The result carries the REST calls made.
\<close>

definition fetch_cluster ::
  "string \<Rightarrow> (string \<Rightarrow> 'c list) \<Rightarrow> 'c list \<Rightarrow> adapter_call list \<times> (error + 'c)" where
  "fetch_cluster cluster_name search feed =
     (if cluster_name \<noteq> [] then
        let clust_wraps = search cluster_name
        in ([Search cluster_name],
            if length clust_wraps = 0 then Inl ClusterNotFoundByName
            else if length clust_wraps > 1 then Inl TooManyClustersFound
            else Inr (clust_wraps ! 0))
      else
        let clust_wraps = feed
        in ([Read ''Cluster''],
            if length clust_wraps = 0 then Inl NoConfigNoClusterFound
            else if length clust_wraps > 1 then Inl NoConfigTooManyClusters
            else Inr (clust_wraps ! 0)))"

text \<open>
  Modelled from the spec: the image metadata and the instance, with the fields the
  unit tests of the disk adapter set.
\<close>

record image_meta =
  image_name :: string
  image_id :: string
  image_size :: int

record Instance =
  instance_name :: string
  instance_uuid :: string

text \<open>
  Modelled from the spec: \<open>_get_image_name\<close> of the disk adapter, the prefix
  \<open>image_\<close> followed by the sanitized image name.
\<close>

definition get_image_name :: "(string \<Rightarrow> string) \<Rightarrow> image_meta \<Rightarrow> string" where
  "get_image_name sanitize img = ''image_'' @ sanitize (image_name img)"

text \<open>
  Modelled from the spec: \<open>_get_disk_name\<close> of the disk adapter for a boot disk,
  the prefix \<open>boot_\<close> followed by the sanitized instance name.
\<close>

definition get_disk_name :: "(string \<Rightarrow> string) \<Rightarrow> Instance \<Rightarrow> string" where
  "get_disk_name sanitize inst = ''boot_'' @ sanitize (instance_name inst)"

text \<open>
  Modelled from the spec: the linear lookup of an LU of a given name and type in
  the pool's logical units, as \<open>create_disk_from_image\<close> does for the image LU.
\<close>

fun find_lu :: "string \<Rightarrow> LUType \<Rightarrow> LU list \<Rightarrow> LU option" where
  "find_lu n t [] = None"
| "find_lu n t (lu # lus) =
     (if name lu = n \<and> lu_type lu = t then Some lu else find_lu n t lus)"

text \<open>
  Modelled from the spec: the calls of \<open>create_disk_from_image\<close> into the library,
  with the arguments the unit tests check: the upload of a new LU of a name and size,
  and the linked clone of an image LU under a name and size.
\<close>

datatype ssp_call = UploadNewLU string int | CrtLuLinkedClone LU string int

text \<open>
  Modelled from the spec: \<open>SSPDiskAdapter.create_disk_from_image\<close>.  An image LU
  already in the pool is reused; otherwise the image is uploaded into a new image LU
  of the image's size.  The boot disk is then made as a linked clone of the image LU.
  \<open>upload_new_lu\<close> and \<open>crt_lu_linked_clone\<close> are the library's tasks; each returns
  the pool after the call and the LU it made.  The result is the calls made, the pool
  and the LU returned.
\<close>

definition create_disk_from_image ::
  "(string \<Rightarrow> string) \<Rightarrow> (LU list \<Rightarrow> string \<Rightarrow> int \<Rightarrow> LU list \<times> LU) \<Rightarrow>
   (LU list \<Rightarrow> LU \<Rightarrow> string \<Rightarrow> int \<Rightarrow> LU list \<times> LU) \<Rightarrow>
   LU list \<Rightarrow> Instance \<Rightarrow> image_meta \<Rightarrow> int \<Rightarrow> ssp_call list \<times> LU list \<times> LU" where
  "create_disk_from_image sanitize upload_new_lu crt_lu_linked_clone ssp inst img disk_size_gb =
     (let luname = get_image_name sanitize img;
          (calls, ssp1, image_lu) =
             (case find_lu luname IMAGE ssp of
                Some lu \<Rightarrow> ([], ssp, lu)
              | None \<Rightarrow>
                  let (ssp', lu) = upload_new_lu ssp luname (image_size img)
                  in ([UploadNewLU luname (image_size img)], ssp', lu));
          boot_lu_name = get_disk_name sanitize inst;
          (ssp2, boot_lu) = crt_lu_linked_clone ssp1 image_lu boot_lu_name disk_size_gb
      in (calls @ [CrtLuLinkedClone image_lu boot_lu_name disk_size_gb], ssp2, boot_lu))"

text \<open>
  Modelled from the spec: the link between a disk LU and its image LU.  A disk LU
  is cloned from the image LU whose UDID equals the disk's cloned-from UDID; the
  first two characters of a UDID are its type prefix and are left out of the
  comparison (the unit test links the clones of \<open>yyabc1231\<close> to the image \<open>xxabc1231\<close>).
\<close>

definition cloned_from :: "LU \<Rightarrow> LU \<Rightarrow> bool" where
  "cloned_from dsk img \<longleftrightarrow>
     lu_type dsk = DISK \<and> lu_type img = IMAGE \<and>
     drop 2 (cloned_from_udid dsk) = drop 2 (udid img)"

text \<open>
  Modelled from the spec: the linear lookup of the image LU a disk LU is cloned from.
\<close>

fun image_lu_for_clone :: "LU list \<Rightarrow> LU \<Rightarrow> LU option" where
  "image_lu_for_clone [] dsk = None"
| "image_lu_for_clone (lu # lus) dsk =
     (if lu_type lu = IMAGE \<and> drop 2 (udid lu) = drop 2 (cloned_from_udid dsk) then Some lu
      else image_lu_for_clone lus dsk)"

text \<open>
  Modelled from the spec: the reference count of an image LU, the number of disk
  LUs of the pool cloned from it.
\<close>

fun ref_count :: "LU list \<Rightarrow> LU \<Rightarrow> nat" where
  "ref_count [] img = 0"
| "ref_count (lu # lus) img =
     (if lu_type lu = DISK \<and> drop 2 (cloned_from_udid lu) = drop 2 (udid img)
      then Suc (ref_count lus img) else ref_count lus img)"

text \<open>
  Modelled from the spec: the removal of an LU from the pool's logical units; the
  LU is identified by its UDID.
\<close>

definition rm_lu_by_udid :: "LU list \<Rightarrow> LU \<Rightarrow> LU list" where
  "rm_lu_by_udid lus lu = filter (\<lambda>x. udid x \<noteq> udid lu) lus"

text \<open>
  Modelled from the spec: the removal of one linked clone.  The image LU is looked
  up before the disk LU is removed; once the disk LU is gone, an image LU whose
  reference count has dropped to zero is removed too.  The pool is a pair of its
  logical units and the number of updates of the SSP entity made so far; the flag
  says whether this removal updates the entity itself.
\<close>

definition remove_lu_linked_clone :: "bool \<Rightarrow> LU list \<times> nat \<Rightarrow> LU \<Rightarrow> LU list \<times> nat" where
  "remove_lu_linked_clone update ssp disk_lu =
     (let lus = fst ssp;
          image_lu = image_lu_for_clone lus disk_lu;
          lus1 = rm_lu_by_udid lus disk_lu;
          lus2 = (case image_lu of
                    None \<Rightarrow> lus1
                  | Some img \<Rightarrow> if ref_count lus1 img = 0 then rm_lu_by_udid lus1 img else lus1)
      in (lus2, if update then Suc (snd ssp) else snd ssp))"

text \<open>
  Modelled from the spec: \<open>SSPDiskAdapter.delete_disks\<close>.  Every storage element is
  removed as a linked clone, without updating the SSP entity; the entity is updated
  once after the loop.
\<close>

fun delete_loop :: "LU list \<times> nat \<Rightarrow> LU list \<Rightarrow> LU list \<times> nat" where
  "delete_loop ssp [] = ssp"
| "delete_loop ssp (lu_to_rm # rest) = delete_loop (remove_lu_linked_clone False ssp lu_to_rm) rest"

text \<open>
  Modelled from the spec: \<open>SSPDiskAdapter.delete_disks\<close> itself, the loop followed by
  the single update of the SSP entity.
\<close>

definition delete_disks :: "LU list \<times> nat \<Rightarrow> LU list \<Rightarrow> LU list \<times> nat" where
  "delete_disks ssp storage_elems =
     (let ssp' = delete_loop ssp storage_elems in (fst ssp', Suc (snd ssp')))"

text \<open>
  Modelled from the spec: a Virtual I/O Server as \<open>connect_instance_disk_to_mgmt\<close>
  reads it, with its SCSI mappings.
\<close>

record VIOS =
  vios_name :: string
  vios_uuid :: string
  scsi_mappings :: "VSCSIMapping list"

text \<open>
  Modelled from the spec: the match of a SCSI mapping against an instance's boot
  disk.  The mapping serves the instance's partition and its backing storage is the
  LU that carries the boot disk name of the instance.
\<close>

definition is_boot_map :: "string \<Rightarrow> int \<Rightarrow> VSCSIMapping \<Rightarrow> bool" where
  "is_boot_map disk_name client_lpar_id m \<longleftrightarrow>
     lpar_id (client_adapter m) = client_lpar_id \<and> name (backing_storage m) = disk_name"

text \<open>
  Modelled from the spec: \<open>SSPDiskAdapter.instance_disk_iter\<close>.  It goes through the
  VIOSes of the cluster in order, reads each with its SCSI mappings, and yields the
  pair of the backing LU and the VIOS for every boot disk mapping of the instance
  found there.  The list is what the iterator yields when it is run to its end.
\<close>

definition instance_disk_iter ::
  "(string \<Rightarrow> VIOS) \<Rightarrow> string \<Rightarrow> int \<Rightarrow> string list \<Rightarrow> (LU \<times> VIOS) list" where
  "instance_disk_iter read_vios disk_name client_lpar_id vios_uuids =
     concat (map (\<lambda>u. map (\<lambda>m. (backing_storage m, read_vios u))
                          (filter (is_boot_map disk_name client_lpar_id)
                             (scsi_mappings (read_vios u))))
                 vios_uuids)"

text \<open>
  Modelled from the spec: the attempts to map the hits found on one VIOS to the
  management partition.  \<open>add_ok vios lu\<close> says whether \<open>add_vscsi_mapping\<close> succeeds;
  a failure is logged and the next hit is tried.  The first argument collects the
  mappings made.
\<close>

fun try_hits ::
  "(VIOS \<Rightarrow> LU \<Rightarrow> bool) \<Rightarrow> VIOS \<Rightarrow> LU list \<Rightarrow> (LU \<times> VIOS) option" where
  "try_hits add_ok vios [] = None"
| "try_hits add_ok vios (lu # lus) =
     (if add_ok vios lu then Some (lu, vios) else try_hits add_ok vios lus)"

text \<open>
  Modelled from the spec: the loop of \<open>connect_instance_disk_to_mgmt\<close> over the
  cluster's VIOSes, in order.  Each VIOS is read with its SCSI mappings
  (\<open>read_vios\<close>); the boot disk mappings found there are tried; the first mapping
  that succeeds ends the loop with its (LU, VIOS) pair.  When the loop runs out,
  \<open>InstanceDiskMappingFailed\<close> is raised.  The result carries the mappings made to the
  management partition.
\<close>

fun connect_loop ::
  "(string \<Rightarrow> VIOS) \<Rightarrow> (VIOS \<Rightarrow> LU \<Rightarrow> bool) \<Rightarrow> string \<Rightarrow> int \<Rightarrow> string list \<Rightarrow>
   (LU \<times> VIOS) list \<times> (error + LU \<times> VIOS)" where
  "connect_loop read_vios add_ok disk_name client_lpar_id [] = ([], Inl InstanceDiskMappingFailed)"
| "connect_loop read_vios add_ok disk_name client_lpar_id (u # us) =
     (let vios_wrap = read_vios u;
          hits = map backing_storage
                   (filter (is_boot_map disk_name client_lpar_id) (scsi_mappings vios_wrap))
      in case try_hits add_ok vios_wrap hits of
           Some r \<Rightarrow> ([r], Inr r)
         | None \<Rightarrow> connect_loop read_vios add_ok disk_name client_lpar_id us)"

text \<open>
  Modelled from the spec: \<open>SSPDiskAdapter.connect_instance_disk_to_mgmt\<close>, for the
  instance whose partition has the id \<open>client_lpar_id\<close>.
\<close>

definition connect_instance_disk_to_mgmt ::
  "(string \<Rightarrow> string) \<Rightarrow> (string \<Rightarrow> VIOS) \<Rightarrow> (VIOS \<Rightarrow> LU \<Rightarrow> bool) \<Rightarrow> string list \<Rightarrow>
   int \<Rightarrow> Instance \<Rightarrow> (LU \<times> VIOS) list \<times> (error + LU \<times> VIOS)" where
  "connect_instance_disk_to_mgmt sanitize read_vios add_ok vios_uuids client_lpar_id inst =
     connect_loop read_vios add_ok (get_disk_name sanitize inst) client_lpar_id vios_uuids"

section \<open>Properties of the network tasks\<close>

lemma cna_loop_breaks_iff:
  "cna_loop_breaks norm_mac cs v \<longleftrightarrow> (\<exists>c \<in> set cs. norm_mac (mac c) = address v)"
  by (induction cs) auto

lemma trim_vifs_filter:
  "trim_vifs norm_mac cs vs acc =
     acc @ filter (\<lambda>v. \<not> cna_loop_breaks norm_mac cs v) vs"
  by (induction vs arbitrary: acc) auto

lemma crt_vif_loop_append:
  "crt_vif_loop new_cna hyp vs = hyp @ map new_cna vs"
  by (induction vs arbitrary: hyp) auto

lemma state_ok_for_plug_iff:
  "state_ok_for_plug lw \<longleftrightarrow>
     state lw = NOT_ACTIVATED \<or> (state lw = RUNNING \<and> rmc_state lw = ACTIVE)"
  by (simp add: state_ok_for_plug_def)

lemma PlugVifs_execute_hyp:
  "state_ok_for_plug lw \<Longrightarrow>
   fst (PlugVifs_execute nm nc fatal w ni lw hyp) =
     hyp @ map nc (filter (\<lambda>v. \<not> cna_loop_breaks nm hyp v) ni)"
  by (simp add: PlugVifs_execute_def Let_def trim_vifs_filter crt_vif_loop_append
           split: option.splits)

text \<open>
  Claim C6.  When the partition is neither \<open>NOT_ACTIVATED\<close> nor \<open>RUNNING\<close> with an
  \<open>ACTIVE\<close> RMC connection, \<open>PlugVifs.execute\<close> raises
  \<open>VirtualInterfaceCreateException\<close> and leaves the adapters of the VM as they were:
  no VIF is created.  In those two states, and only there, it goes on to the creation
  loop over the trimmed VIFs.
\<close>

theorem PlugVifs_execute_state_gate:
  "(\<not> (state lw = NOT_ACTIVATED \<or> (state lw = RUNNING \<and> rmc_state lw = ACTIVE)) \<longrightarrow>
      PlugVifs_execute nm nc fatal w ni lw hyp = (hyp, Inl VirtualInterfaceCreateException))
   \<and> ((state lw = NOT_ACTIVATED \<or> (state lw = RUNNING \<and> rmc_state lw = ACTIVE)) \<longrightarrow>
      fst (PlugVifs_execute nm nc fatal w ni lw hyp) =
        crt_vif_loop nc hyp (trim_vifs nm hyp ni []))"
  by (simp add: PlugVifs_execute_def Let_def state_ok_for_plug_def split: option.splits)

theorem PlugVifs_execute_state_gate_witness:
  "PlugVifs_execute id (\<lambda>v. \<lparr>mac = address v, vswitch_uri = ''sw''\<rparr>) True WaitDone
      [\<lparr>address = ''aa'', vif_id = ''1''\<rparr>]
      \<lparr>state = RUNNING, rmc_state = OTHER_RMC_STATE 0\<rparr> []
     = ([], Inl VirtualInterfaceCreateException)
   \<and> fst (PlugVifs_execute id (\<lambda>v. \<lparr>mac = address v, vswitch_uri = ''sw''\<rparr>) True WaitDone
      [\<lparr>address = ''aa'', vif_id = ''1''\<rparr>]
      \<lparr>state = RUNNING, rmc_state = ACTIVE\<rparr> [])
     = [\<lparr>mac = ''aa'', vswitch_uri = ''sw''\<rparr>]"
  using PlugVifs_execute_state_gate [of "\<lparr>state = RUNNING, rmc_state = OTHER_RMC_STATE 0\<rparr>"
          id "\<lambda>v. \<lparr>mac = address v, vswitch_uri = ''sw''\<rparr>" True WaitDone
          "[\<lparr>address = ''aa'', vif_id = ''1''\<rparr>]" "[]"]
        PlugVifs_execute_state_gate [of "\<lparr>state = RUNNING, rmc_state = ACTIVE\<rparr>"
          id "\<lambda>v. \<lparr>mac = address v, vswitch_uri = ''sw''\<rparr>" True WaitDone
          "[\<lparr>address = ''aa'', vif_id = ''1''\<rparr>]" "[]"]
  by simp

text \<open>
  Claim C8.  The value \<open>PlugVifs.execute\<close> returns, provided as \<open>vm_cnas\<close>, is the
  adapter list fetched before any creation.  The adapters of the VM after the call
  are that list followed by the adapters created, and when the adapter made for a
  VIF carries the VIF's address as its normalized MAC, none of the adapters created
  occurs in the list returned.
\<close>

theorem PlugVifs_execute_provides_prior_cnas:
  assumes "PlugVifs_execute nm nc fatal w ni lw hyp = (hyp', Inr vm_cnas)"
  shows "vm_cnas = hyp
     \<and> hyp' = vm_cnas @ map nc (filter (\<lambda>v. \<not> cna_loop_breaks nm hyp v) ni)
     \<and> ((\<forall>v \<in> set ni. nm (mac (nc v)) = address v) \<longrightarrow>
          (\<forall>v \<in> set (filter (\<lambda>v. \<not> cna_loop_breaks nm hyp v) ni). nc v \<notin> set vm_cnas))"
proof -
  from assms have ok: "state_ok_for_plug lw"
    by (auto simp: PlugVifs_execute_def split: if_splits)
  from assms ok have ret: "vm_cnas = hyp"
    by (auto simp: PlugVifs_execute_def Let_def split: option.splits)
  from PlugVifs_execute_hyp [OF ok, of nm nc fatal w ni hyp] assms ret
  have after: "hyp' = vm_cnas @ map nc (filter (\<lambda>v. \<not> cna_loop_breaks nm hyp v) ni)"
    by simp
  have fresh: "nc v \<notin> set vm_cnas"
    if "\<forall>v \<in> set ni. nm (mac (nc v)) = address v"
      and "v \<in> set (filter (\<lambda>v. \<not> cna_loop_breaks nm hyp v) ni)" for v
  proof
    assume "nc v \<in> set vm_cnas"
    with ret that(1) that(2) have "\<exists>c \<in> set hyp. nm (mac c) = address v"
      by auto
    with that(2) show False by (simp add: cna_loop_breaks_iff)
  qed
  from ret after fresh show ?thesis by blast
qed

text \<open>
  Claim C9.  In a state fit for plugging, \<open>PlugVifs.execute\<close> creates one adapter
  for each VIF of \<open>network_info\<close>, in order, whose address is the normalized MAC of
  no adapter the VM already has, and for no other VIF.  When every VIF matches an
  existing adapter, nothing is created.
\<close>

theorem PlugVifs_execute_creates_unplugged:
  assumes "state_ok_for_plug lw"
  shows "fst (PlugVifs_execute nm nc fatal w ni lw hyp) =
           hyp @ map nc (filter (\<lambda>v. \<forall>c \<in> set hyp. nm (mac c) \<noteq> address v) ni)
       \<and> ((\<forall>v \<in> set ni. \<exists>c \<in> set hyp. nm (mac c) = address v) \<longrightarrow>
            fst (PlugVifs_execute nm nc fatal w ni lw hyp) = hyp)"
proof -
  have eq: "(\<lambda>v. \<not> cna_loop_breaks nm hyp v) = (\<lambda>v. \<forall>c \<in> set hyp. nm (mac c) \<noteq> address v)"
    by (simp add: cna_loop_breaks_iff)
  have first: "fst (PlugVifs_execute nm nc fatal w ni lw hyp) =
           hyp @ map nc (filter (\<lambda>v. \<forall>c \<in> set hyp. nm (mac c) \<noteq> address v) ni)"
    using PlugVifs_execute_hyp [OF assms, of nm nc fatal w ni hyp] by (simp add: eq)
  have "filter (\<lambda>v. \<forall>c \<in> set hyp. nm (mac c) \<noteq> address v) ni = []"
    if "\<forall>v \<in> set ni. \<exists>c \<in> set hyp. nm (mac c) = address v"
    using that by (auto simp: filter_empty_conv)
  with first show ?thesis by simp
qed


theorem PlugVifs_execute_provides_prior_cnas_witness:
  "PlugVifs_execute id (\<lambda>v. \<lparr>mac = address v, vswitch_uri = ''sw''\<rparr>) True WaitDone
      [\<lparr>address = ''aa'', vif_id = ''1''\<rparr>, \<lparr>address = ''bb'', vif_id = ''2''\<rparr>]
      \<lparr>state = NOT_ACTIVATED, rmc_state = OTHER_RMC_STATE 0\<rparr>
      [\<lparr>mac = ''aa'', vswitch_uri = ''sw''\<rparr>]
     = ([\<lparr>mac = ''aa'', vswitch_uri = ''sw''\<rparr>, \<lparr>mac = ''bb'', vswitch_uri = ''sw''\<rparr>],
        Inr [\<lparr>mac = ''aa'', vswitch_uri = ''sw''\<rparr>])
   \<and> \<lparr>mac = ''bb'', vswitch_uri = ''sw''\<rparr> \<notin> set [\<lparr>mac = ''aa'', vswitch_uri = ''sw''\<rparr>]"
proof -
  have run: "PlugVifs_execute id (\<lambda>v. \<lparr>mac = address v, vswitch_uri = ''sw''\<rparr>) True WaitDone
      [\<lparr>address = ''aa'', vif_id = ''1''\<rparr>, \<lparr>address = ''bb'', vif_id = ''2''\<rparr>]
      \<lparr>state = NOT_ACTIVATED, rmc_state = OTHER_RMC_STATE 0\<rparr>
      [\<lparr>mac = ''aa'', vswitch_uri = ''sw''\<rparr>]
     = ([\<lparr>mac = ''aa'', vswitch_uri = ''sw''\<rparr>, \<lparr>mac = ''bb'', vswitch_uri = ''sw''\<rparr>],
        Inr [\<lparr>mac = ''aa'', vswitch_uri = ''sw''\<rparr>])"
    by (simp add: PlugVifs_execute_def state_ok_for_plug_def leave_wait_def Let_def)
  from PlugVifs_execute_provides_prior_cnas [OF run] run show ?thesis
    by simp
qed

theorem PlugVifs_execute_creates_unplugged_witness:
  "state_ok_for_plug \<lparr>state = RUNNING, rmc_state = ACTIVE\<rparr>
   \<and> fst (PlugVifs_execute id (\<lambda>v. \<lparr>mac = address v, vswitch_uri = ''sw''\<rparr>) False WaitTimeout
      [\<lparr>address = ''aa'', vif_id = ''1''\<rparr>, \<lparr>address = ''bb'', vif_id = ''2''\<rparr>]
      \<lparr>state = RUNNING, rmc_state = ACTIVE\<rparr>
      [\<lparr>mac = ''aa'', vswitch_uri = ''sw''\<rparr>])
     = [\<lparr>mac = ''aa'', vswitch_uri = ''sw''\<rparr>, \<lparr>mac = ''bb'', vswitch_uri = ''sw''\<rparr>]
   \<and> fst (PlugVifs_execute id (\<lambda>v. \<lparr>mac = address v, vswitch_uri = ''sw''\<rparr>) False WaitTimeout
      [\<lparr>address = ''aa'', vif_id = ''1''\<rparr>]
      \<lparr>state = RUNNING, rmc_state = ACTIVE\<rparr>
      [\<lparr>mac = ''aa'', vswitch_uri = ''sw''\<rparr>])
     = [\<lparr>mac = ''aa'', vswitch_uri = ''sw''\<rparr>]"
proof -
  have ok: "state_ok_for_plug \<lparr>state = RUNNING, rmc_state = ACTIVE\<rparr>"
    by (simp add: state_ok_for_plug_def)
  from PlugVifs_execute_creates_unplugged [OF ok, of id
         "\<lambda>v. \<lparr>mac = address v, vswitch_uri = ''sw''\<rparr>" False WaitTimeout
         "[\<lparr>address = ''aa'', vif_id = ''1''\<rparr>, \<lparr>address = ''bb'', vif_id = ''2''\<rparr>]"
         "[\<lparr>mac = ''aa'', vswitch_uri = ''sw''\<rparr>]"]
       PlugVifs_execute_creates_unplugged [OF ok, of id
         "\<lambda>v. \<lparr>mac = address v, vswitch_uri = ''sw''\<rparr>" False WaitTimeout
         "[\<lparr>address = ''aa'', vif_id = ''1''\<rparr>]"
         "[\<lparr>mac = ''aa'', vswitch_uri = ''sw''\<rparr>]"]
       ok
  show ?thesis by simp
qed

section \<open>Properties of the driver\<close>

text \<open>
  What the matcher decides: a literal consumes itself, \<open>.*\<close> consumes any text
  without a newline, and a search may skip any prefix.
\<close>

lemma match_here_Lit_iff:
  "match_here (Lit l # ps) s \<longleftrightarrow> (\<exists>b. s = l @ b \<and> match_here ps b)"
proof
  assume "match_here (Lit l # ps) s"
  then have t: "take (length l) s = l" and m: "match_here ps (drop (length l) s)"
    by (auto split: if_splits)
  from t have "s = l @ drop (length l) s"
    by (metis append_take_drop_id)
  with m show "\<exists>b. s = l @ b \<and> match_here ps b" by blast
next
  assume "\<exists>b. s = l @ b \<and> match_here ps b"
  then show "match_here (Lit l # ps) s" by auto
qed

lemma match_here_DotStar_iff:
  "match_here (DotStar # ps) s \<longleftrightarrow>
     (\<exists>a b. s = a @ b \<and> CHR 0x0A \<notin> set a \<and> match_here ps b)"
proof (induction s)
  case Nil
  then show ?case by simp
next
  case (Cons c cs)
  show ?case
  proof
    assume "match_here (DotStar # ps) (c # cs)"
    then consider "match_here ps (c # cs)"
      | "c \<noteq> CHR 0x0A" "match_here (DotStar # ps) cs"
      by (auto split: if_splits)
    then show "\<exists>a b. c # cs = a @ b \<and> CHR 0x0A \<notin> set a \<and> match_here ps b"
    proof cases
      case 1
      then have "c # cs = [] @ (c # cs) \<and> CHR 0x0A \<notin> set [] \<and> match_here ps (c # cs)"
        by simp
      then show ?thesis by blast
    next
      case 2
      with Cons.IH obtain a b where "cs = a @ b" "CHR 0x0A \<notin> set a" "match_here ps b"
        by blast
      with 2 have "c # cs = (c # a) @ b \<and> CHR 0x0A \<notin> set (c # a) \<and> match_here ps b"
        by simp
      then show ?thesis by blast
    qed
  next
    assume "\<exists>a b. c # cs = a @ b \<and> CHR 0x0A \<notin> set a \<and> match_here ps b"
    then obtain a b where ab: "c # cs = a @ b" "CHR 0x0A \<notin> set a" "match_here ps b"
      by blast
    show "match_here (DotStar # ps) (c # cs)"
    proof (cases a)
      case Nil
      with ab have "match_here ps (c # cs)" by simp
      then show ?thesis by simp
    next
      case (Cons x a')
      with ab have "c = x" "cs = a' @ b" "CHR 0x0A \<notin> set a'" "c \<noteq> CHR 0x0A"
        by auto
      with ab(3) Cons.IH have "match_here (DotStar # ps) cs" by blast
      with \<open>c \<noteq> CHR 0x0A\<close> show ?thesis by simp
    qed
  qed
qed

lemma re_search_iff:
  "re_search ps s \<longleftrightarrow> (\<exists>a b. s = a @ b \<and> match_here ps b)"
proof (induction s)
  case Nil
  then show ?case by simp
next
  case (Cons c cs)
  show ?case
  proof
    assume "re_search ps (c # cs)"
    then consider "match_here ps (c # cs)" | "re_search ps cs"
      by (auto split: if_splits)
    then show "\<exists>a b. c # cs = a @ b \<and> match_here ps b"
    proof cases
      case 1
      then have "c # cs = [] @ (c # cs) \<and> match_here ps (c # cs)" by simp
      then show ?thesis by blast
    next
      case 2
      with Cons.IH obtain a b where "cs = a @ b" "match_here ps b" by blast
      then have "c # cs = (c # a) @ b \<and> match_here ps b" by simp
      then show ?thesis by blast
    qed
  next
    assume "\<exists>a b. c # cs = a @ b \<and> match_here ps b"
    then obtain a b where ab: "c # cs = a @ b" "match_here ps b" by blast
    show "re_search ps (c # cs)"
    proof (cases a)
      case Nil
      with ab have "match_here ps (c # cs)" by simp
      then show ?thesis by simp
    next
      case (Cons x a')
      with ab have "cs = a' @ b" by simp
      with ab(2) Cons.IH have "re_search ps cs" by blast
      then show ?thesis by simp
    qed
  qed
qed


lemma re_tail: "match_here [DotStar] s"
  by (cases s) simp_all

lemma re_mid:
  "match_here (DotStar # Lit l # ps) s \<longleftrightarrow>
     (\<exists>a b. s = a @ l @ b \<and> CHR 0x0A \<notin> set a \<and> match_here ps b)"
  unfolding match_here_DotStar_iff match_here_Lit_iff by blast

lemma re_head:
  "re_search (Lit l # ps) s \<longleftrightarrow> (\<exists>a b. s = a @ l @ b \<and> match_here ps b)"
  unfolding re_search_iff match_here_Lit_iff by blast

lemma re_search_shape:
  "re_search [Lit l1, DotStar, Lit l2, DotStar, Lit h, DotStar, Lit h, DotStar, Lit h,
              DotStar, Lit h, DotStar] p \<longleftrightarrow>
     (\<exists>pre b c d e f rest.
        p = pre @ l1 @ b @ l2 @ c @ h @ d @ h @ e @ h @ f @ h @ rest
        \<and> CHR 0x0A \<notin> set (b @ c @ d @ e @ f))"
proof
  assume "re_search [Lit l1, DotStar, Lit l2, DotStar, Lit h, DotStar, Lit h, DotStar, Lit h,
              DotStar, Lit h, DotStar] p"
  from re_head [THEN iffD1, OF this] obtain pre r1 where
    1: "p = pre @ l1 @ r1"
    and m1: "match_here [DotStar, Lit l2, DotStar, Lit h, DotStar, Lit h, DotStar, Lit h,
              DotStar, Lit h, DotStar] r1"
    by blast
  from re_mid [THEN iffD1, OF m1] obtain b r2 where
    2: "r1 = b @ l2 @ r2" "CHR 0x0A \<notin> set b"
    and m2: "match_here [DotStar, Lit h, DotStar, Lit h, DotStar, Lit h, DotStar, Lit h, DotStar] r2"
    by blast
  from re_mid [THEN iffD1, OF m2] obtain c r3 where
    3: "r2 = c @ h @ r3" "CHR 0x0A \<notin> set c"
    and m3: "match_here [DotStar, Lit h, DotStar, Lit h, DotStar, Lit h, DotStar] r3"
    by blast
  from re_mid [THEN iffD1, OF m3] obtain d r4 where
    4: "r3 = d @ h @ r4" "CHR 0x0A \<notin> set d"
    and m4: "match_here [DotStar, Lit h, DotStar, Lit h, DotStar] r4"
    by blast
  from re_mid [THEN iffD1, OF m4] obtain e r5 where
    5: "r4 = e @ h @ r5" "CHR 0x0A \<notin> set e"
    and m5: "match_here [DotStar, Lit h, DotStar] r5"
    by blast
  from re_mid [THEN iffD1, OF m5] obtain f r6 where
    6: "r5 = f @ h @ r6" "CHR 0x0A \<notin> set f"
    by blast
  from 1 2 3 4 5 6
  have "p = pre @ l1 @ b @ l2 @ c @ h @ d @ h @ e @ h @ f @ h @ r6
        \<and> CHR 0x0A \<notin> set (b @ c @ d @ e @ f)"
    by simp
  then show "\<exists>pre b c d e f rest.
        p = pre @ l1 @ b @ l2 @ c @ h @ d @ h @ e @ h @ f @ h @ rest
        \<and> CHR 0x0A \<notin> set (b @ c @ d @ e @ f)"
    by blast
next
  assume "\<exists>pre b c d e f rest.
        p = pre @ l1 @ b @ l2 @ c @ h @ d @ h @ e @ h @ f @ h @ rest
        \<and> CHR 0x0A \<notin> set (b @ c @ d @ e @ f)"
  then obtain pre b c d e f rest where
    p: "p = pre @ l1 @ b @ l2 @ c @ h @ d @ h @ e @ h @ f @ h @ rest"
    and nl: "CHR 0x0A \<notin> set b" "CHR 0x0A \<notin> set c" "CHR 0x0A \<notin> set d" "CHR 0x0A \<notin> set e"
      "CHR 0x0A \<notin> set f"
    by auto
  have m6: "match_here [DotStar] rest" by (rule re_tail)
  have m5: "match_here [DotStar, Lit h, DotStar] (f @ h @ rest)"
    using re_mid [THEN iffD2] nl(5) m6 by blast
  have m4: "match_here [DotStar, Lit h, DotStar, Lit h, DotStar] (e @ h @ f @ h @ rest)"
    using re_mid [THEN iffD2] nl(4) m5 by blast
  have m3: "match_here [DotStar, Lit h, DotStar, Lit h, DotStar, Lit h, DotStar]
              (d @ h @ e @ h @ f @ h @ rest)"
    using re_mid [THEN iffD2] nl(3) m4 by blast
  have m2: "match_here [DotStar, Lit h, DotStar, Lit h, DotStar, Lit h, DotStar, Lit h, DotStar]
              (c @ h @ d @ h @ e @ h @ f @ h @ rest)"
    using re_mid [THEN iffD2] nl(2) m3 by blast
  have m1: "match_here [DotStar, Lit l2, DotStar, Lit h, DotStar, Lit h, DotStar, Lit h,
              DotStar, Lit h, DotStar] (b @ l2 @ c @ h @ d @ h @ e @ h @ f @ h @ rest)"
    using re_mid [THEN iffD2] nl(1) m2 by blast
  show "re_search [Lit l1, DotStar, Lit l2, DotStar, Lit h, DotStar, Lit h, DotStar, Lit h,
              DotStar, Lit h, DotStar] p"
    unfolding p using re_head [THEN iffD2] m1 by blast
qed

text \<open>
  The paths the expression of \<open>destroy\<close> accepts: somewhere \<open>/ManagedSystem/\<close>, later
  on the same line \<open>/LogicalPartition/\<close>, and after it four hyphens on that line.
\<close>

lemma re_search_lpar_path_exp_iff:
  "re_search lpar_path_exp p \<longleftrightarrow>
     (\<exists>pre b c d e f rest.
        p = pre @ ''/ManagedSystem/'' @ b @ ''/LogicalPartition/'' @ c @ ''-'' @ d @ ''-'' @ e
              @ ''-'' @ f @ ''-'' @ rest
        \<and> CHR 0x0A \<notin> set (b @ c @ d @ e @ f))"
  unfolding lpar_path_exp_def by (rule re_search_shape)


lemma add_volume_tasks_all:
  "\<forall>b \<in> set bs. connection_info b \<noteq> None \<Longrightarrow>
   add_volume_tasks vd flow bs = Inr (flow @ concat (map (spec_volume_tasks vd) bs))"
proof (induction bs arbitrary: flow)
  case Nil
  then show ?case by simp
next
  case (Cons b bs)
  then obtain ci where ci: "connection_info b = Some ci" by auto
  from Cons.prems have rest: "\<forall>b \<in> set bs. connection_info b \<noteq> None" by simp
  show ?case
    by (simp add: ci Let_def flow_add_def spec_volume_tasks_def Cons.IH [OF rest])
qed

lemma add_volume_tasks_error:
  "\<exists>b \<in> set bs. connection_info b = None \<Longrightarrow> add_volume_tasks vd flow bs = Inl AttributeError"
  by (induction bs arbitrary: flow) (auto simp: Let_def split: option.splits)

text \<open>
  Claim C5.  When every block device mapping carries its connection information,
  \<open>spawn\<close> builds the flow: create the LPAR, plug the VIFs, plug the management VIF;
  then, only when the instance is not booted from a volume, create the boot disk
  from the image and connect it; then, for each block device mapping in order,
  connect the volume and save the mapping; then the config drive when the instance
  requires one; and the power-on as the last task.
\<close>

theorem spawn_flow_order:
  assumes "\<forall>l. extract_bdm bdi = Some l \<longrightarrow> (\<forall>b \<in> set l. connection_info b \<noteq> None)"
  shows "spawn_flow grb gm vd dbf cfg fl bdi =
     Inr ([Create, PlugVifs, PlugMgmtVif]
          @ (if is_booted_from_volume grb gm bdi then []
             else [CreateDiskForImg (root_gb (case fl of None \<Rightarrow> dbf | Some f \<Rightarrow> f)), ConnectDisk])
          @ concat (map (spec_volume_tasks vd) (case extract_bdm bdi of None \<Rightarrow> [] | Some l \<Rightarrow> l))
          @ (if cfg then [CreateAndConnectCfgDrive] else [])
          @ [PowerOn])"
proof (cases "extract_bdm bdi")
  case None
  then show ?thesis
    by (simp add: spawn_flow_def Let_def flow_add_def)
next
  case (Some l)
  with assms have "\<forall>b \<in> set l. connection_info b \<noteq> None" by simp
  then have "\<And>flow. add_volume_tasks vd flow l = Inr (flow @ concat (map (spec_volume_tasks vd) l))"
    by (rule add_volume_tasks_all)
  with Some show ?thesis
    by (simp add: spawn_flow_def Let_def flow_add_def)
qed

theorem spawn_flow_order_witness:
  "spawn_flow (find (\<lambda>b. boot_index b = Some 0))
      (\<lambda>bdi. case bdi of Some (Mapping l) \<Rightarrow> l | _ \<Rightarrow> [])
      [''fibre_channel'' \<mapsto> ''vscsi''] \<lparr>root_gb = 10\<rparr> True None
      (Some (Mapping [\<lparr>connection_info = Some \<lparr>driver_volume_type = Some ''fibre_channel''\<rparr>,
                       boot_index = Some 1\<rparr>]))
   = Inr [Create, PlugVifs, PlugMgmtVif, CreateDiskForImg 10, ConnectDisk,
          ConnectVolume (Some ''vscsi'') \<lparr>driver_volume_type = Some ''fibre_channel''\<rparr>,
          SaveBDM \<lparr>connection_info = Some \<lparr>driver_volume_type = Some ''fibre_channel''\<rparr>,
                   boot_index = Some 1\<rparr>,
          CreateAndConnectCfgDrive, PowerOn]
   \<and> spawn_flow (find (\<lambda>b. boot_index b = Some 0))
      (\<lambda>bdi. case bdi of Some (Mapping l) \<Rightarrow> l | _ \<Rightarrow> [])
      [''fibre_channel'' \<mapsto> ''vscsi''] \<lparr>root_gb = 10\<rparr> False (Some \<lparr>root_gb = 20\<rparr>)
      (Some (Mapping [\<lparr>connection_info = Some \<lparr>driver_volume_type = Some ''fibre_channel''\<rparr>,
                       boot_index = Some 0\<rparr>]))
   = Inr [Create, PlugVifs, PlugMgmtVif,
          ConnectVolume (Some ''vscsi'') \<lparr>driver_volume_type = Some ''fibre_channel''\<rparr>,
          SaveBDM \<lparr>connection_info = Some \<lparr>driver_volume_type = Some ''fibre_channel''\<rparr>,
                   boot_index = Some 0\<rparr>,
          PowerOn]"
  using spawn_flow_order [of
      "Some (Mapping [\<lparr>connection_info = Some \<lparr>driver_volume_type = Some ''fibre_channel''\<rparr>,
                       boot_index = Some 1\<rparr>])"
      "find (\<lambda>b. boot_index b = Some 0)"
      "\<lambda>bdi. case bdi of Some (Mapping l) \<Rightarrow> l | _ \<Rightarrow> []"
      "[''fibre_channel'' \<mapsto> ''vscsi'']" "\<lparr>root_gb = 10\<rparr>" True None]
    spawn_flow_order [of
      "Some (Mapping [\<lparr>connection_info = Some \<lparr>driver_volume_type = Some ''fibre_channel''\<rparr>,
                       boot_index = Some 0\<rparr>])"
      "find (\<lambda>b. boot_index b = Some 0)"
      "\<lambda>bdi. case bdi of Some (Mapping l) \<Rightarrow> l | _ \<Rightarrow> []"
      "[''fibre_channel'' \<mapsto> ''vscsi'']" "\<lparr>root_gb = 10\<rparr>" False "Some \<lparr>root_gb = 20\<rparr>"]
  by (simp add: extract_bdm_def is_booted_from_volume_def spec_volume_tasks_def vol_drvs_get_def)

text \<open>
  Claim C7.  \<open>destroy\<close> returns normally when the body of its \<open>try\<close> raises
  \<open>InstanceNotFound\<close>, and when it raises an \<open>HttpError\<close> of status 404 whose
  request path matches the LogicalPartition expression.  Every other \<open>HttpError\<close>
  the body raises leaves \<open>destroy\<close> as it is.
\<close>

theorem destroy_not_found:
  "(destroy_try_body g r = Some InstanceNotFound \<longrightarrow> destroy ts g r = None)
 \<and> (destroy_try_body g r = Some (HttpError resp) \<and> status resp = 404
      \<and> re_search lpar_path_exp (reqpath resp) \<longrightarrow> destroy ts g r = None)
 \<and> (ts \<noteq> Some RESIZE_REVERTING \<and> destroy_try_body g r = Some (HttpError resp)
      \<and> \<not> (status resp = 404 \<and> re_search lpar_path_exp (reqpath resp))
      \<longrightarrow> destroy ts g r = Some (HttpError resp))"
  by (auto simp: destroy_def destroy_except_def)

lemma lpar_path_example:
  "re_search lpar_path_exp ''/uom/ManagedSystem/67dc/LogicalPartition/0A1B-11-22-33-44''"
  by (simp add: lpar_path_exp_def)

lemma vios_path_example:
  "\<not> re_search lpar_path_exp ''/uom/ManagedSystem/67dc/VirtualIOServer/0A1B-11-22-33-44''"
  by (simp add: lpar_path_exp_def)

theorem destroy_not_found_witness:
  "destroy None (Inl InstanceNotFound) (\<lambda>u. None) = None
 \<and> destroy None (Inr ''uuid'') (\<lambda>u. Some InstanceNotFound) = None
 \<and> destroy None (Inr ''uuid'')
      (\<lambda>u. Some (HttpError \<lparr>status = 404,
          reqpath = ''/uom/ManagedSystem/67dc/LogicalPartition/0A1B-11-22-33-44''\<rparr>)) = None
 \<and> destroy None (Inr ''uuid'')
      (\<lambda>u. Some (HttpError \<lparr>status = 404,
          reqpath = ''/uom/ManagedSystem/67dc/VirtualIOServer/0A1B-11-22-33-44''\<rparr>))
    = Some (HttpError \<lparr>status = 404,
          reqpath = ''/uom/ManagedSystem/67dc/VirtualIOServer/0A1B-11-22-33-44''\<rparr>)
 \<and> destroy None (Inr ''uuid'')
      (\<lambda>u. Some (HttpError \<lparr>status = 500,
          reqpath = ''/uom/ManagedSystem/67dc/LogicalPartition/0A1B-11-22-33-44''\<rparr>))
    = Some (HttpError \<lparr>status = 500,
          reqpath = ''/uom/ManagedSystem/67dc/LogicalPartition/0A1B-11-22-33-44''\<rparr>)"
  using destroy_not_found [of "Inl InstanceNotFound" "\<lambda>u. None" None]
    destroy_not_found [of "Inr ''uuid''" "\<lambda>u. Some InstanceNotFound" None]
    destroy_not_found [of "Inr ''uuid''"
      "\<lambda>u. Some (HttpError \<lparr>status = 404,
          reqpath = ''/uom/ManagedSystem/67dc/LogicalPartition/0A1B-11-22-33-44''\<rparr>)"
      None
      "\<lparr>status = 404, reqpath = ''/uom/ManagedSystem/67dc/LogicalPartition/0A1B-11-22-33-44''\<rparr>"]
    destroy_not_found [of "Inr ''uuid''"
      "\<lambda>u. Some (HttpError \<lparr>status = 404,
          reqpath = ''/uom/ManagedSystem/67dc/VirtualIOServer/0A1B-11-22-33-44''\<rparr>)"
      None
      "\<lparr>status = 404, reqpath = ''/uom/ManagedSystem/67dc/VirtualIOServer/0A1B-11-22-33-44''\<rparr>"]
    destroy_not_found [of "Inr ''uuid''"
      "\<lambda>u. Some (HttpError \<lparr>status = 500,
          reqpath = ''/uom/ManagedSystem/67dc/LogicalPartition/0A1B-11-22-33-44''\<rparr>)"
      None
      "\<lparr>status = 500, reqpath = ''/uom/ManagedSystem/67dc/LogicalPartition/0A1B-11-22-33-44''\<rparr>"]
    lpar_path_example vios_path_example
  by (simp add: destroy_try_body_def)

section \<open>Properties of the disk discovery\<close>

lemma last32_suffix: "\<exists>p. u = p @ last32 u"
  by (metis append_take_drop_id last32_def)

lemma last32_length: "length (last32 u) = min 32 (length u)"
  by (simp add: last32_def)

text \<open>For a slot number below \<open>2 ^ 28\<close> the bitwise or is an addition.\<close>

lemma linux_slot_small:
  assumes "0 \<le> slot_number (client_adapter m)" "slot_number (client_adapter m) < 2 ^ 28"
  shows "linux_slot m = 0x30000000 + slot_number (client_adapter m)"
proof -
  let ?s = "slot_number (client_adapter m)"
  have hi: "(0x30000000::int) = push_bit 28 3"
    by (simp add: push_bit_eq_mult)
  from assms have lo: "take_bit 28 ?s = ?s"
    by (simp add: take_bit_int_eq_self)
  have "push_bit n (a::int) AND take_bit n b = 0" for n a b
    by (auto simp: bit_eq_iff bit_simps)
  then have "push_bit 28 (3::int) AND take_bit 28 ?s = 0" .
  with hi lo have "(0x30000000::int) AND ?s = 0"
    by simp
  then have "(0x30000000::int) + ?s = 0x30000000 OR ?s"
    by (rule disjunctive_add_eq_or)
  then show ?thesis
    by (simp add: linux_slot_def)
qed

text \<open>
  Claim C10.  \<open>discover_vscsi_disk\<close> scans the buses found under the Linux slot
  \<open>0x30000000 | slot_number\<close>, then globs \<open>/dev/disk/by-id/*\<close> followed by the last 32
  characters of the UDID of the mapping's backing storage.  It raises
  \<open>UniqueDiskDiscoveryException\<close> if and only if the number of entries found is not one;
  otherwise it returns the real path of the single entry.
\<close>

theorem discover_vscsi_disk_unique:
  "let lslot = 0x30000000 OR slot_number (client_adapter m);
       u = last32 (udid (backing_storage m));
       fs' = scan_loop os (glob os fs
               (''/sys/bus/vio/devices/'' @ fmt_x lslot @ ''/host*/scsi_host/host*/scan'')) fs;
       disks = glob os fs' (''/dev/disk/by-id/*'' @ u)
   in length u = min 32 (length (udid (backing_storage m)))
      \<and> (\<exists>p. udid (backing_storage m) = p @ u)
      \<and> fst (discover_vscsi_disk os m fs) = fs'
      \<and> ((\<exists>pat n. snd (discover_vscsi_disk os m fs) = Inl (UniqueDiskDiscoveryException pat n))
            \<longleftrightarrow> length disks \<noteq> 1)
      \<and> (\<forall>d. disks = [d] \<longrightarrow> snd (discover_vscsi_disk os m fs) = Inr (realpath os fs' d))
      \<and> (length disks = 1 \<longleftrightarrow> (\<exists>dpath. snd (discover_vscsi_disk os m fs) = Inr dpath))"
  using last32_suffix [of "udid (backing_storage m)"]
  by (auto simp: discover_vscsi_disk_def Let_def linux_slot_def scan_pattern_def dpathpat_def
        last32_length)

theorem discover_vscsi_disk_unique_witness:
  "discover_vscsi_disk
     \<lparr>glob = (\<lambda>fs pat.
         if pat = ''/sys/bus/vio/devices/30000002/host*/scsi_host/host*/scan''
         then [''/sys/bus/vio/devices/30000002/host0/scsi_host/host0/scan'']
         else if pat = ''/dev/disk/by-id/*0123456789abcdef0123456789abcdef'' \<and> 0 < fs
         then [''/dev/disk/by-id/scsi-SIBM_3303_NVDISK0123456789abcdef0123456789abcdef'']
         else []),
       echo_scsi_command = (\<lambda>p c fs. Suc fs),
       realpath = (\<lambda>fs p. ''/dev/sdb'')\<rparr>
     \<lparr>client_adapter = \<lparr>slot_number = 2, lpar_id = 1\<rparr>,
       backing_storage = \<lparr>name = ''boot_x'', udid = ''270123456789abcdef0123456789abcdef'',
                           lu_type = DISK, cloned_from_udid = []\<rparr>\<rparr>
     (0::nat)
   = (1, Inr ''/dev/sdb'')"
proof -
  have slot: "fmt_x 805306370 = ''30000002''"
    by (simp add: fmt_x_def hex_nat.simps hex_digit_def)
  show ?thesis
    using discover_vscsi_disk_unique [of
      "\<lparr>client_adapter = \<lparr>slot_number = 2, lpar_id = 1\<rparr>,
       backing_storage = \<lparr>name = ''boot_x'', udid = ''270123456789abcdef0123456789abcdef'',
                           lu_type = DISK, cloned_from_udid = []\<rparr>\<rparr>"
      "\<lparr>glob = (\<lambda>fs pat.
         if pat = ''/sys/bus/vio/devices/30000002/host*/scsi_host/host*/scan''
         then [''/sys/bus/vio/devices/30000002/host0/scsi_host/host0/scan'']
         else if pat = ''/dev/disk/by-id/*0123456789abcdef0123456789abcdef'' \<and> 0 < fs
         then [''/dev/disk/by-id/scsi-SIBM_3303_NVDISK0123456789abcdef0123456789abcdef'']
         else []),
       echo_scsi_command = (\<lambda>p c fs. Suc fs),
       realpath = (\<lambda>fs p. ''/dev/sdb'')\<rparr>"
      "0::nat"]
    by (simp add: Let_def slot last32_def prod_eq_iff)
qed

section \<open>Properties of the Shared Storage Pool disk adapter\<close>

text \<open>
  Claim C3.  With a configured cluster name the discovery makes one search by that
  name; it raises \<open>ClusterNotFoundByName\<close> exactly when the search finds no cluster,
  \<open>TooManyClustersFound\<close> exactly when it finds more than one, and goes on with the
  cluster found exactly when there is one.  Without a configured name it reads the
  \<open>Cluster\<close> feed; it raises \<open>NoConfigNoClusterFound\<close> exactly when the feed is empty,
  \<open>NoConfigTooManyClusters\<close> exactly when it holds more than one cluster, and goes on
  with the cluster of the feed exactly when there is one.
\<close>

theorem fetch_cluster_outcomes:
  "(cluster_name \<noteq> [] \<longrightarrow>
      fst (fetch_cluster cluster_name search feed) = [Search cluster_name]
    \<and> (snd (fetch_cluster cluster_name search feed) = Inl ClusterNotFoundByName
          \<longleftrightarrow> length (search cluster_name) = 0)
    \<and> (snd (fetch_cluster cluster_name search feed) = Inl TooManyClustersFound
          \<longleftrightarrow> length (search cluster_name) > 1)
    \<and> (\<forall>c. snd (fetch_cluster cluster_name search feed) = Inr c
          \<longleftrightarrow> search cluster_name = [c]))
 \<and> (cluster_name = [] \<longrightarrow>
      fst (fetch_cluster cluster_name search feed) = [Read ''Cluster'']
    \<and> (snd (fetch_cluster cluster_name search feed) = Inl NoConfigNoClusterFound
          \<longleftrightarrow> length feed = 0)
    \<and> (snd (fetch_cluster cluster_name search feed) = Inl NoConfigTooManyClusters
          \<longleftrightarrow> length feed > 1)
    \<and> (\<forall>c. snd (fetch_cluster cluster_name search feed) = Inr c
          \<longleftrightarrow> feed = [c]))"
proof -
  have one: "(xs ! 0 = c \<and> length xs = 1) \<longleftrightarrow> xs = [c]" for xs :: "'a list" and c
    by (cases xs) auto
  have single: "\<not> length xs = 0 \<Longrightarrow> \<not> 1 < length xs \<Longrightarrow> (xs ! 0 = c) = (xs = [c])"
    for xs :: "'a list" and c
    using one [of xs c] by (cases xs) auto
  show ?thesis
    by (auto simp: fetch_cluster_def Let_def single)
qed

theorem fetch_cluster_outcomes_witness:
  "fetch_cluster ''clust1'' (\<lambda>n. if n = ''clust1'' then [1::nat] else []) [1, 2]
     = ([Search ''clust1''], Inr 1)
 \<and> fetch_cluster ''other'' (\<lambda>n. if n = ''clust1'' then [1::nat] else []) [1, 2]
     = ([Search ''other''], Inl ClusterNotFoundByName)
 \<and> fetch_cluster '''' (\<lambda>n. if n = ''clust1'' then [1::nat] else []) [1, 2]
     = ([Read ''Cluster''], Inl NoConfigTooManyClusters)
 \<and> fetch_cluster '''' (\<lambda>n. if n = ''clust1'' then [1::nat] else []) [7]
     = ([Read ''Cluster''], Inr 7)"
  using fetch_cluster_outcomes [of "''clust1''" "\<lambda>n. if n = ''clust1'' then [1::nat] else []" "[1, 2]"]
    fetch_cluster_outcomes [of "''other''" "\<lambda>n. if n = ''clust1'' then [1::nat] else []" "[1, 2]"]
    fetch_cluster_outcomes [of "[]" "\<lambda>n. if n = ''clust1'' then [1::nat] else []" "[1, 2]"]
    fetch_cluster_outcomes [of "[]" "\<lambda>n. if n = ''clust1'' then [1::nat] else []" "[7]"]
  by (simp add: prod_eq_iff)

text \<open>The linear lookup finds an LU of the name and type exactly when the pool has one.\<close>

lemma find_lu_None_iff:
  "find_lu n t lus = None \<longleftrightarrow> \<not> (\<exists>lu \<in> set lus. name lu = n \<and> lu_type lu = t)"
  by (induction lus) auto

lemma find_lu_Some:
  "find_lu n t lus = Some lu \<Longrightarrow> lu \<in> set lus \<and> name lu = n \<and> lu_type lu = t"
  by (induction lus) (auto split: if_splits)

text \<open>
  Claim C4.  When the pool already holds an image LU named \<open>image_\<close> plus the
  sanitized image name, \<open>create_disk_from_image\<close> uploads nothing and clones such an
  LU of the pool; otherwise it first uploads a new image LU of that name and of the
  image's size, and clones the LU uploaded.  In both cases the only other call is the
  linked clone named \<open>boot_\<close> plus the sanitized instance name, and the LU that call
  makes is the one returned.
\<close>

theorem create_disk_from_image_reuse:
  "((\<exists>lu \<in> set ssp. name lu = ''image_'' @ sanitize (image_name img) \<and> lu_type lu = IMAGE) \<longrightarrow>
      (\<exists>lu \<in> set ssp. name lu = ''image_'' @ sanitize (image_name img) \<and> lu_type lu = IMAGE
         \<and> fst (create_disk_from_image sanitize upload clone ssp inst img sz)
              = [CrtLuLinkedClone lu (''boot_'' @ sanitize (instance_name inst)) sz]
         \<and> snd (create_disk_from_image sanitize upload clone ssp inst img sz)
              = clone ssp lu (''boot_'' @ sanitize (instance_name inst)) sz))
 \<and> (\<not> (\<exists>lu \<in> set ssp. name lu = ''image_'' @ sanitize (image_name img) \<and> lu_type lu = IMAGE) \<longrightarrow>
      fst (create_disk_from_image sanitize upload clone ssp inst img sz)
        = [UploadNewLU (''image_'' @ sanitize (image_name img)) (image_size img),
           CrtLuLinkedClone (snd (upload ssp (''image_'' @ sanitize (image_name img)) (image_size img)))
             (''boot_'' @ sanitize (instance_name inst)) sz]
    \<and> snd (create_disk_from_image sanitize upload clone ssp inst img sz)
        = clone (fst (upload ssp (''image_'' @ sanitize (image_name img)) (image_size img)))
                (snd (upload ssp (''image_'' @ sanitize (image_name img)) (image_size img)))
                (''boot_'' @ sanitize (instance_name inst)) sz)"
proof (cases "find_lu (''image_'' @ sanitize (image_name img)) IMAGE ssp")
  case None
  then have no: "\<not> (\<exists>lu \<in> set ssp. name lu = ''image_'' @ sanitize (image_name img) \<and> lu_type lu = IMAGE)"
    by (simp add: find_lu_None_iff)
  from None have
    "fst (create_disk_from_image sanitize upload clone ssp inst img sz)
        = [UploadNewLU (''image_'' @ sanitize (image_name img)) (image_size img),
           CrtLuLinkedClone (snd (upload ssp (''image_'' @ sanitize (image_name img)) (image_size img)))
             (''boot_'' @ sanitize (instance_name inst)) sz]
    \<and> snd (create_disk_from_image sanitize upload clone ssp inst img sz)
        = clone (fst (upload ssp (''image_'' @ sanitize (image_name img)) (image_size img)))
                (snd (upload ssp (''image_'' @ sanitize (image_name img)) (image_size img)))
                (''boot_'' @ sanitize (instance_name inst)) sz"
    by (simp add: create_disk_from_image_def get_image_name_def get_disk_name_def Let_def
          split: prod.splits)
  with no show ?thesis by blast
next
  case (Some lu)
  from find_lu_Some [OF Some]
  have lu: "lu \<in> set ssp" "name lu = ''image_'' @ sanitize (image_name img)" "lu_type lu = IMAGE"
    by simp_all
  from Some have
    "fst (create_disk_from_image sanitize upload clone ssp inst img sz)
              = [CrtLuLinkedClone lu (''boot_'' @ sanitize (instance_name inst)) sz]
         \<and> snd (create_disk_from_image sanitize upload clone ssp inst img sz)
              = clone ssp lu (''boot_'' @ sanitize (instance_name inst)) sz"
    by (simp add: create_disk_from_image_def get_image_name_def get_disk_name_def Let_def
          split: prod.splits)
  with lu show ?thesis by blast
qed

theorem create_disk_from_image_reuse_witness:
  "create_disk_from_image (map (\<lambda>c. if c = CHR ''-'' then CHR ''_'' else c))
      (\<lambda>ssp n sz. (ssp @ [\<lparr>name = n, udid = ''27aa'', lu_type = IMAGE, cloned_from_udid = []\<rparr>],
                     \<lparr>name = n, udid = ''27aa'', lu_type = IMAGE, cloned_from_udid = []\<rparr>))
      (\<lambda>ssp i n sz. (ssp @ [\<lparr>name = n, udid = ''27bb'', lu_type = DISK, cloned_from_udid = udid i\<rparr>],
                       \<lparr>name = n, udid = ''27bb'', lu_type = DISK, cloned_from_udid = udid i\<rparr>))
      [] \<lparr>instance_name = ''instance-name'', instance_uuid = ''u''\<rparr>
      \<lparr>image_name = ''image-name'', image_id = ''image-id'', image_size = 2147483648\<rparr> 1
   = ([UploadNewLU ''image_image_name'' 2147483648,
       CrtLuLinkedClone \<lparr>name = ''image_image_name'', udid = ''27aa'', lu_type = IMAGE,
                          cloned_from_udid = []\<rparr> ''boot_instance_name'' 1],
      [\<lparr>name = ''image_image_name'', udid = ''27aa'', lu_type = IMAGE, cloned_from_udid = []\<rparr>,
       \<lparr>name = ''boot_instance_name'', udid = ''27bb'', lu_type = DISK, cloned_from_udid = ''27aa''\<rparr>],
      \<lparr>name = ''boot_instance_name'', udid = ''27bb'', lu_type = DISK, cloned_from_udid = ''27aa''\<rparr>)
 \<and> create_disk_from_image (map (\<lambda>c. if c = CHR ''-'' then CHR ''_'' else c))
      (\<lambda>ssp n sz. (ssp @ [\<lparr>name = n, udid = ''27aa'', lu_type = IMAGE, cloned_from_udid = []\<rparr>],
                     \<lparr>name = n, udid = ''27aa'', lu_type = IMAGE, cloned_from_udid = []\<rparr>))
      (\<lambda>ssp i n sz. (ssp @ [\<lparr>name = n, udid = ''27bb'', lu_type = DISK, cloned_from_udid = udid i\<rparr>],
                       \<lparr>name = n, udid = ''27bb'', lu_type = DISK, cloned_from_udid = udid i\<rparr>))
      [\<lparr>name = ''image_image_name'', udid = ''27cc'', lu_type = IMAGE, cloned_from_udid = []\<rparr>]
      \<lparr>instance_name = ''instance-name'', instance_uuid = ''u''\<rparr>
      \<lparr>image_name = ''image-name'', image_id = ''image-id'', image_size = 2147483648\<rparr> 1
   = ([CrtLuLinkedClone \<lparr>name = ''image_image_name'', udid = ''27cc'', lu_type = IMAGE,
                          cloned_from_udid = []\<rparr> ''boot_instance_name'' 1],
      [\<lparr>name = ''image_image_name'', udid = ''27cc'', lu_type = IMAGE, cloned_from_udid = []\<rparr>,
       \<lparr>name = ''boot_instance_name'', udid = ''27bb'', lu_type = DISK, cloned_from_udid = ''27cc''\<rparr>],
      \<lparr>name = ''boot_instance_name'', udid = ''27bb'', lu_type = DISK, cloned_from_udid = ''27cc''\<rparr>)"
  using create_disk_from_image_reuse [of "[]"
      "map (\<lambda>c. if c = CHR ''-'' then CHR ''_'' else c)"
      "\<lparr>image_name = ''image-name'', image_id = ''image-id'', image_size = 2147483648\<rparr>"
      "\<lambda>ssp n sz. (ssp @ [\<lparr>name = n, udid = ''27aa'', lu_type = IMAGE, cloned_from_udid = []\<rparr>],
                     \<lparr>name = n, udid = ''27aa'', lu_type = IMAGE, cloned_from_udid = []\<rparr>)"
      "\<lambda>ssp i n sz. (ssp @ [\<lparr>name = n, udid = ''27bb'', lu_type = DISK, cloned_from_udid = udid i\<rparr>],
                       \<lparr>name = n, udid = ''27bb'', lu_type = DISK, cloned_from_udid = udid i\<rparr>)"
      "\<lparr>instance_name = ''instance-name'', instance_uuid = ''u''\<rparr>" 1]
    create_disk_from_image_reuse [of
      "[\<lparr>name = ''image_image_name'', udid = ''27cc'', lu_type = IMAGE, cloned_from_udid = []\<rparr>]"
      "map (\<lambda>c. if c = CHR ''-'' then CHR ''_'' else c)"
      "\<lparr>image_name = ''image-name'', image_id = ''image-id'', image_size = 2147483648\<rparr>"
      "\<lambda>ssp n sz. (ssp @ [\<lparr>name = n, udid = ''27aa'', lu_type = IMAGE, cloned_from_udid = []\<rparr>],
                     \<lparr>name = n, udid = ''27aa'', lu_type = IMAGE, cloned_from_udid = []\<rparr>)"
      "\<lambda>ssp i n sz. (ssp @ [\<lparr>name = n, udid = ''27bb'', lu_type = DISK, cloned_from_udid = udid i\<rparr>],
                       \<lparr>name = n, udid = ''27bb'', lu_type = DISK, cloned_from_udid = udid i\<rparr>)"
      "\<lparr>instance_name = ''instance-name'', instance_uuid = ''u''\<rparr>" 1]
  by (simp add: prod_eq_iff)

text \<open>
  The loop of \<open>connect_instance_disk_to_mgmt\<close> against the iterator: it stops at the
  first pair the iterator yields whose mapping to the management partition succeeds.
\<close>

lemma find_append_case:
  "find P (xs @ ys) = (case find P xs of None \<Rightarrow> find P ys | Some x \<Rightarrow> Some x)"
  by (induction xs) auto

lemma try_hits_find:
  "try_hits add_ok v lus = find (\<lambda>(lu, w). add_ok w lu) (map (\<lambda>lu. (lu, v)) lus)"
  by (induction lus) auto

lemma connect_loop_find:
  "connect_loop read_vios add_ok dn lid us =
     (case find (\<lambda>(lu, v). add_ok v lu) (instance_disk_iter read_vios dn lid us) of
        None \<Rightarrow> ([], Inl InstanceDiskMappingFailed)
      | Some r \<Rightarrow> ([r], Inr r))"
proof (induction us)
  case Nil
  then show ?case by (simp add: instance_disk_iter_def)
next
  case (Cons u us)
  have iter: "instance_disk_iter read_vios dn lid (u # us) =
      map (\<lambda>lu. (lu, read_vios u))
        (map backing_storage (filter (is_boot_map dn lid) (scsi_mappings (read_vios u))))
      @ instance_disk_iter read_vios dn lid us"
    by (simp add: instance_disk_iter_def comp_def)
  let ?hits = "map backing_storage (filter (is_boot_map dn lid) (scsi_mappings (read_vios u)))"
  have hits: "find (\<lambda>(lu, v). add_ok v lu) (map (\<lambda>lu. (lu, read_vios u)) ?hits)
      = try_hits add_ok (read_vios u) ?hits"
    by (rule try_hits_find [symmetric])
  have loop: "connect_loop read_vios add_ok dn lid (u # us) =
      (case try_hits add_ok (read_vios u) ?hits of
         Some r \<Rightarrow> ([r], Inr r)
       | None \<Rightarrow> connect_loop read_vios add_ok dn lid us)"
    by (simp add: Let_def)
  show ?case
  proof (cases "try_hits add_ok (read_vios u) ?hits")
    case None
    then show ?thesis
      unfolding iter find_append_case hits loop by (simp add: Cons.IH)
  next
    case (Some r)
    then show ?thesis
      unfolding iter find_append_case hits loop by simp
  qed
qed

lemma instance_disk_iter_empty:
  "\<forall>u \<in> set us. \<forall>m \<in> set (scsi_mappings (read_vios u)). \<not> is_boot_map dn lid m
   \<Longrightarrow> instance_disk_iter read_vios dn lid us = []"
  by (auto simp: instance_disk_iter_def filter_empty_conv)

text \<open>
  Claim C2, as amended.  \<open>connect_instance_disk_to_mgmt\<close> goes through the VIOSes of
  the cluster in order and through the boot disk mappings of the instance found on
  each.  The first of them whose mapping to the management partition succeeds is the
  only mapping made, and its pair of LU and VIOS is returned; a mapping that fails
  is passed over and the next one tried.  When none succeeds,
  \<open>InstanceDiskMappingFailed\<close> is raised and no mapping is made; this is so in
  particular when no VIOS has a boot disk mapping of the instance.
\<close>

theorem connect_instance_disk_to_mgmt_failover:
  "connect_instance_disk_to_mgmt sanitize read_vios add_ok us lid inst =
     (case find (\<lambda>(lu, v). add_ok v lu)
             (instance_disk_iter read_vios (''boot_'' @ sanitize (instance_name inst)) lid us) of
        None \<Rightarrow> ([], Inl InstanceDiskMappingFailed)
      | Some r \<Rightarrow> ([r], Inr r))
 \<and> ((\<forall>u \<in> set us. \<forall>m \<in> set (scsi_mappings (read_vios u)).
        \<not> is_boot_map (''boot_'' @ sanitize (instance_name inst)) lid m)
    \<longrightarrow> connect_instance_disk_to_mgmt sanitize read_vios add_ok us lid inst
          = ([], Inl InstanceDiskMappingFailed))"
proof -
  have eq: "connect_instance_disk_to_mgmt sanitize read_vios add_ok us lid inst =
     (case find (\<lambda>(lu, v). add_ok v lu)
             (instance_disk_iter read_vios (''boot_'' @ sanitize (instance_name inst)) lid us) of
        None \<Rightarrow> ([], Inl InstanceDiskMappingFailed)
      | Some r \<Rightarrow> ([r], Inr r))"
    by (simp add: connect_instance_disk_to_mgmt_def get_disk_name_def connect_loop_find)
  have "connect_instance_disk_to_mgmt sanitize read_vios add_ok us lid inst
          = ([], Inl InstanceDiskMappingFailed)"
    if "\<forall>u \<in> set us. \<forall>m \<in> set (scsi_mappings (read_vios u)).
        \<not> is_boot_map (''boot_'' @ sanitize (instance_name inst)) lid m"
    unfolding eq instance_disk_iter_empty [OF that] by simp
  with eq show ?thesis by blast
qed

theorem connect_instance_disk_to_mgmt_failover_witness:
  "connect_instance_disk_to_mgmt (map (\<lambda>c. if c = CHR ''-'' then CHR ''_'' else c))
      (\<lambda>u. if u = ''u1''
         then \<lparr>vios_name = ''vios1'', vios_uuid = ''u1'',
            scsi_mappings = [\<lparr>client_adapter = \<lparr>slot_number = 2, lpar_id = 4\<rparr>,
              backing_storage = \<lparr>name = ''boot_my_instance_name'', udid = ''27bb'',
                                  lu_type = DISK, cloned_from_udid = []\<rparr>\<rparr>]\<rparr>
         else if u = ''u2''
         then \<lparr>vios_name = ''vios2'', vios_uuid = ''u2'',
            scsi_mappings = [\<lparr>client_adapter = \<lparr>slot_number = 3, lpar_id = 4\<rparr>,
              backing_storage = \<lparr>name = ''boot_my_instance_name'', udid = ''27bb'',
                                  lu_type = DISK, cloned_from_udid = []\<rparr>\<rparr>]\<rparr>
         else \<lparr>vios_name = ''vios3'', vios_uuid = ''u3'',
            scsi_mappings = [\<lparr>client_adapter = \<lparr>slot_number = 2, lpar_id = 4\<rparr>,
              backing_storage = \<lparr>name = ''other'', udid = ''27aa'', lu_type = DISK,
                                  cloned_from_udid = []\<rparr>\<rparr>]\<rparr>)
      (\<lambda>v lu. vios_name v \<noteq> ''vios1'') [''u3'', ''u1'', ''u2''] 4 \<lparr>instance_name = ''my-instance-name'', instance_uuid = ''i''\<rparr>
   = ([(\<lparr>name = ''boot_my_instance_name'', udid = ''27bb'', lu_type = DISK, cloned_from_udid = []\<rparr>,
        \<lparr>vios_name = ''vios2'', vios_uuid = ''u2'',
            scsi_mappings = [\<lparr>client_adapter = \<lparr>slot_number = 3, lpar_id = 4\<rparr>,
              backing_storage = \<lparr>name = ''boot_my_instance_name'', udid = ''27bb'',
                                  lu_type = DISK, cloned_from_udid = []\<rparr>\<rparr>]\<rparr>)],
      Inr (\<lparr>name = ''boot_my_instance_name'', udid = ''27bb'', lu_type = DISK, cloned_from_udid = []\<rparr>,
        \<lparr>vios_name = ''vios2'', vios_uuid = ''u2'',
            scsi_mappings = [\<lparr>client_adapter = \<lparr>slot_number = 3, lpar_id = 4\<rparr>,
              backing_storage = \<lparr>name = ''boot_my_instance_name'', udid = ''27bb'',
                                  lu_type = DISK, cloned_from_udid = []\<rparr>\<rparr>]\<rparr>))
 \<and> connect_instance_disk_to_mgmt (map (\<lambda>c. if c = CHR ''-'' then CHR ''_'' else c))
      (\<lambda>u. if u = ''u1''
         then \<lparr>vios_name = ''vios1'', vios_uuid = ''u1'',
            scsi_mappings = [\<lparr>client_adapter = \<lparr>slot_number = 2, lpar_id = 4\<rparr>,
              backing_storage = \<lparr>name = ''boot_my_instance_name'', udid = ''27bb'',
                                  lu_type = DISK, cloned_from_udid = []\<rparr>\<rparr>]\<rparr>
         else if u = ''u2''
         then \<lparr>vios_name = ''vios2'', vios_uuid = ''u2'',
            scsi_mappings = [\<lparr>client_adapter = \<lparr>slot_number = 3, lpar_id = 4\<rparr>,
              backing_storage = \<lparr>name = ''boot_my_instance_name'', udid = ''27bb'',
                                  lu_type = DISK, cloned_from_udid = []\<rparr>\<rparr>]\<rparr>
         else \<lparr>vios_name = ''vios3'', vios_uuid = ''u3'',
            scsi_mappings = [\<lparr>client_adapter = \<lparr>slot_number = 2, lpar_id = 4\<rparr>,
              backing_storage = \<lparr>name = ''other'', udid = ''27aa'', lu_type = DISK,
                                  cloned_from_udid = []\<rparr>\<rparr>]\<rparr>)
      (\<lambda>v lu. vios_name v \<noteq> ''vios1'') [''u3'', ''u3''] 4 \<lparr>instance_name = ''my-instance-name'', instance_uuid = ''i''\<rparr>
   = ([], Inl InstanceDiskMappingFailed)"
  using connect_instance_disk_to_mgmt_failover [where us = "[''u3'', ''u1'', ''u2'']" and lid = 4
      and add_ok = "\<lambda>v lu. vios_name v \<noteq> ''vios1''"
      and sanitize = "map (\<lambda>c. if c = CHR ''-'' then CHR ''_'' else c)"
      and inst = "\<lparr>instance_name = ''my-instance-name'', instance_uuid = ''i''\<rparr>"
      and read_vios = "\<lambda>u. if u = ''u1''
         then \<lparr>vios_name = ''vios1'', vios_uuid = ''u1'',
            scsi_mappings = [\<lparr>client_adapter = \<lparr>slot_number = 2, lpar_id = 4\<rparr>,
              backing_storage = \<lparr>name = ''boot_my_instance_name'', udid = ''27bb'',
                                  lu_type = DISK, cloned_from_udid = []\<rparr>\<rparr>]\<rparr>
         else if u = ''u2''
         then \<lparr>vios_name = ''vios2'', vios_uuid = ''u2'',
            scsi_mappings = [\<lparr>client_adapter = \<lparr>slot_number = 3, lpar_id = 4\<rparr>,
              backing_storage = \<lparr>name = ''boot_my_instance_name'', udid = ''27bb'',
                                  lu_type = DISK, cloned_from_udid = []\<rparr>\<rparr>]\<rparr>
         else \<lparr>vios_name = ''vios3'', vios_uuid = ''u3'',
            scsi_mappings = [\<lparr>client_adapter = \<lparr>slot_number = 2, lpar_id = 4\<rparr>,
              backing_storage = \<lparr>name = ''other'', udid = ''27aa'', lu_type = DISK,
                                  cloned_from_udid = []\<rparr>\<rparr>]\<rparr>"]
    connect_instance_disk_to_mgmt_failover [where us = "[''u3'', ''u3'']" and lid = 4
      and add_ok = "\<lambda>v lu. vios_name v \<noteq> ''vios1''"
      and sanitize = "map (\<lambda>c. if c = CHR ''-'' then CHR ''_'' else c)"
      and inst = "\<lparr>instance_name = ''my-instance-name'', instance_uuid = ''i''\<rparr>"
      and read_vios = "\<lambda>u. if u = ''u1''
         then \<lparr>vios_name = ''vios1'', vios_uuid = ''u1'',
            scsi_mappings = [\<lparr>client_adapter = \<lparr>slot_number = 2, lpar_id = 4\<rparr>,
              backing_storage = \<lparr>name = ''boot_my_instance_name'', udid = ''27bb'',
                                  lu_type = DISK, cloned_from_udid = []\<rparr>\<rparr>]\<rparr>
         else if u = ''u2''
         then \<lparr>vios_name = ''vios2'', vios_uuid = ''u2'',
            scsi_mappings = [\<lparr>client_adapter = \<lparr>slot_number = 3, lpar_id = 4\<rparr>,
              backing_storage = \<lparr>name = ''boot_my_instance_name'', udid = ''27bb'',
                                  lu_type = DISK, cloned_from_udid = []\<rparr>\<rparr>]\<rparr>
         else \<lparr>vios_name = ''vios3'', vios_uuid = ''u3'',
            scsi_mappings = [\<lparr>client_adapter = \<lparr>slot_number = 2, lpar_id = 4\<rparr>,
              backing_storage = \<lparr>name = ''other'', udid = ''27aa'', lu_type = DISK,
                                  cloned_from_udid = []\<rparr>\<rparr>]\<rparr>"]
  by (simp add: is_boot_map_def instance_disk_iter_def)

text \<open>
  The claim as it was stated fails where a mapping call fails.  Both VIOSes below
  hold the boot disk mapping of the instance.  When the call fails on the first
  VIOS, the pair returned is the one of the second VIOS, not of the first VIOS that
  has the mapping; when the call fails on both, \<open>InstanceDiskMappingFailed\<close> is
  raised although a VIOS has the mapping.
\<close>

theorem connect_instance_disk_to_mgmt_first_hit_counterexample:
  "is_boot_map (''boot_'' @ (map (\<lambda>c. if c = CHR ''-'' then CHR ''_'' else c)) ''my-instance-name'') 4
      (\<lparr>client_adapter = \<lparr>slot_number = 2, lpar_id = 4\<rparr>,
              backing_storage = \<lparr>name = ''boot_my_instance_name'', udid = ''27bb'',
                                  lu_type = DISK, cloned_from_udid = []\<rparr>\<rparr>)
 \<and> scsi_mappings ((\<lambda>u. if u = ''u1''
         then \<lparr>vios_name = ''vios1'', vios_uuid = ''u1'',
            scsi_mappings = [\<lparr>client_adapter = \<lparr>slot_number = 2, lpar_id = 4\<rparr>,
              backing_storage = \<lparr>name = ''boot_my_instance_name'', udid = ''27bb'',
                                  lu_type = DISK, cloned_from_udid = []\<rparr>\<rparr>]\<rparr>
         else if u = ''u2''
         then \<lparr>vios_name = ''vios2'', vios_uuid = ''u2'',
            scsi_mappings = [\<lparr>client_adapter = \<lparr>slot_number = 3, lpar_id = 4\<rparr>,
              backing_storage = \<lparr>name = ''boot_my_instance_name'', udid = ''27bb'',
                                  lu_type = DISK, cloned_from_udid = []\<rparr>\<rparr>]\<rparr>
         else \<lparr>vios_name = ''vios3'', vios_uuid = ''u3'',
            scsi_mappings = [\<lparr>client_adapter = \<lparr>slot_number = 2, lpar_id = 4\<rparr>,
              backing_storage = \<lparr>name = ''other'', udid = ''27aa'', lu_type = DISK,
                                  cloned_from_udid = []\<rparr>\<rparr>]\<rparr>) ''u1'') = [\<lparr>client_adapter = \<lparr>slot_number = 2, lpar_id = 4\<rparr>,
              backing_storage = \<lparr>name = ''boot_my_instance_name'', udid = ''27bb'',
                                  lu_type = DISK, cloned_from_udid = []\<rparr>\<rparr>]
 \<and> connect_instance_disk_to_mgmt (map (\<lambda>c. if c = CHR ''-'' then CHR ''_'' else c))
      (\<lambda>u. if u = ''u1''
         then \<lparr>vios_name = ''vios1'', vios_uuid = ''u1'',
            scsi_mappings = [\<lparr>client_adapter = \<lparr>slot_number = 2, lpar_id = 4\<rparr>,
              backing_storage = \<lparr>name = ''boot_my_instance_name'', udid = ''27bb'',
                                  lu_type = DISK, cloned_from_udid = []\<rparr>\<rparr>]\<rparr>
         else if u = ''u2''
         then \<lparr>vios_name = ''vios2'', vios_uuid = ''u2'',
            scsi_mappings = [\<lparr>client_adapter = \<lparr>slot_number = 3, lpar_id = 4\<rparr>,
              backing_storage = \<lparr>name = ''boot_my_instance_name'', udid = ''27bb'',
                                  lu_type = DISK, cloned_from_udid = []\<rparr>\<rparr>]\<rparr>
         else \<lparr>vios_name = ''vios3'', vios_uuid = ''u3'',
            scsi_mappings = [\<lparr>client_adapter = \<lparr>slot_number = 2, lpar_id = 4\<rparr>,
              backing_storage = \<lparr>name = ''other'', udid = ''27aa'', lu_type = DISK,
                                  cloned_from_udid = []\<rparr>\<rparr>]\<rparr>)
      (\<lambda>v lu. vios_name v \<noteq> ''vios1'') [''u1'', ''u2''] 4 \<lparr>instance_name = ''my-instance-name'', instance_uuid = ''i''\<rparr>
   = ([(\<lparr>name = ''boot_my_instance_name'', udid = ''27bb'', lu_type = DISK, cloned_from_udid = []\<rparr>,
        \<lparr>vios_name = ''vios2'', vios_uuid = ''u2'',
            scsi_mappings = [\<lparr>client_adapter = \<lparr>slot_number = 3, lpar_id = 4\<rparr>,
              backing_storage = \<lparr>name = ''boot_my_instance_name'', udid = ''27bb'',
                                  lu_type = DISK, cloned_from_udid = []\<rparr>\<rparr>]\<rparr>)],
      Inr (\<lparr>name = ''boot_my_instance_name'', udid = ''27bb'', lu_type = DISK, cloned_from_udid = []\<rparr>,
        \<lparr>vios_name = ''vios2'', vios_uuid = ''u2'',
            scsi_mappings = [\<lparr>client_adapter = \<lparr>slot_number = 3, lpar_id = 4\<rparr>,
              backing_storage = \<lparr>name = ''boot_my_instance_name'', udid = ''27bb'',
                                  lu_type = DISK, cloned_from_udid = []\<rparr>\<rparr>]\<rparr>))
 \<and> connect_instance_disk_to_mgmt (map (\<lambda>c. if c = CHR ''-'' then CHR ''_'' else c))
      (\<lambda>u. if u = ''u1''
         then \<lparr>vios_name = ''vios1'', vios_uuid = ''u1'',
            scsi_mappings = [\<lparr>client_adapter = \<lparr>slot_number = 2, lpar_id = 4\<rparr>,
              backing_storage = \<lparr>name = ''boot_my_instance_name'', udid = ''27bb'',
                                  lu_type = DISK, cloned_from_udid = []\<rparr>\<rparr>]\<rparr>
         else if u = ''u2''
         then \<lparr>vios_name = ''vios2'', vios_uuid = ''u2'',
            scsi_mappings = [\<lparr>client_adapter = \<lparr>slot_number = 3, lpar_id = 4\<rparr>,
              backing_storage = \<lparr>name = ''boot_my_instance_name'', udid = ''27bb'',
                                  lu_type = DISK, cloned_from_udid = []\<rparr>\<rparr>]\<rparr>
         else \<lparr>vios_name = ''vios3'', vios_uuid = ''u3'',
            scsi_mappings = [\<lparr>client_adapter = \<lparr>slot_number = 2, lpar_id = 4\<rparr>,
              backing_storage = \<lparr>name = ''other'', udid = ''27aa'', lu_type = DISK,
                                  cloned_from_udid = []\<rparr>\<rparr>]\<rparr>)
      (\<lambda>v lu. False) [''u1'', ''u2''] 4 \<lparr>instance_name = ''my-instance-name'', instance_uuid = ''i''\<rparr>
   = ([], Inl InstanceDiskMappingFailed)"
  by (simp add: connect_instance_disk_to_mgmt_def get_disk_name_def is_boot_map_def Let_def)

text \<open>
  The lookups of the linked-clone removal, in terms of the pool's contents.
\<close>

lemma ref_count_zero_iff:
  "ref_count lus img = 0 \<longleftrightarrow>
     \<not> (\<exists>d \<in> set lus. lu_type d = DISK \<and> drop 2 (cloned_from_udid d) = drop 2 (udid img))"
  by (induction lus) auto

lemma image_lu_for_clone_None_iff:
  "image_lu_for_clone lus d = None \<longleftrightarrow>
     \<not> (\<exists>i \<in> set lus. lu_type i = IMAGE \<and> drop 2 (udid i) = drop 2 (cloned_from_udid d))"
  by (induction lus) auto

lemma image_lu_for_clone_Some:
  "image_lu_for_clone lus d = Some i \<Longrightarrow>
     i \<in> set lus \<and> lu_type i = IMAGE \<and> drop 2 (udid i) = drop 2 (cloned_from_udid d)"
  by (induction lus) (auto split: if_splits)

lemma distinct_udid_eq:
  "distinct (map udid lus) \<Longrightarrow> a \<in> set lus \<Longrightarrow> b \<in> set lus \<Longrightarrow> udid a = udid b \<Longrightarrow> a = b"
  by (meson distinct_map inj_onD)

text \<open>
  One removal, in a pool whose LUs have distinct UDIDs and whose image LUs are told
  apart by their UDIDs without the type prefix: the disk LU goes, and with it the
  image LU it was cloned from when no other disk LU of the pool is cloned from it.
\<close>

lemma remove_step:
  assumes dist: "distinct (map udid lus)"
    and uniq: "\<forall>i \<in> set lus. \<forall>j \<in> set lus. lu_type i = IMAGE \<and> lu_type j = IMAGE
                 \<and> drop 2 (udid i) = drop 2 (udid j) \<longrightarrow> i = j"
    and disk: "lu_type e = DISK"
  shows "fst (remove_lu_linked_clone b (lus, n) e) =
     filter (\<lambda>lu. udid lu \<noteq> udid e
               \<and> \<not> (cloned_from e lu \<and> \<not> (\<exists>d \<in> set lus. udid d \<noteq> udid e \<and> cloned_from d lu))) lus"
proof (cases "image_lu_for_clone lus e")
  case None
  then have "\<forall>lu \<in> set lus. \<not> cloned_from e lu"
    by (auto simp: image_lu_for_clone_None_iff cloned_from_def)
  then have "filter (\<lambda>lu. udid lu \<noteq> udid e
               \<and> \<not> (cloned_from e lu \<and> \<not> (\<exists>d \<in> set lus. udid d \<noteq> udid e \<and> cloned_from d lu))) lus
      = filter (\<lambda>lu. udid lu \<noteq> udid e) lus"
    by (intro filter_cong) auto
  with None show ?thesis
    by (simp add: remove_lu_linked_clone_def rm_lu_by_udid_def Let_def)
next
  case (Some i)
  from image_lu_for_clone_Some [OF Some]
  have i: "i \<in> set lus" "lu_type i = IMAGE" "drop 2 (udid i) = drop 2 (cloned_from_udid e)"
    by simp_all
  have cf: "cloned_from e lu \<longleftrightarrow> lu = i" if "lu \<in> set lus" for lu
  proof
    assume "cloned_from e lu"
    then have "lu_type lu = IMAGE" "drop 2 (cloned_from_udid e) = drop 2 (udid lu)"
      unfolding cloned_from_def by blast+
    with i have "lu_type lu = IMAGE \<and> lu_type i = IMAGE \<and> drop 2 (udid lu) = drop 2 (udid i)"
      by metis
    with uniq that i(1) show "lu = i" by blast
  next
    assume "lu = i"
    with i disk show "cloned_from e lu"
      unfolding cloned_from_def by metis
  qed
  have "ref_count (rm_lu_by_udid lus e) i = 0 \<longleftrightarrow>
          \<not> (\<exists>d \<in> set (rm_lu_by_udid lus e).
                 lu_type d = DISK \<and> drop 2 (cloned_from_udid d) = drop 2 (udid i))"
    by (rule ref_count_zero_iff)
  also have "\<dots> \<longleftrightarrow> \<not> (\<exists>d \<in> set lus. udid d \<noteq> udid e \<and> cloned_from d i)"
    unfolding cloned_from_def rm_lu_by_udid_def set_filter using i(2) by blast
  finally have rc: "ref_count (rm_lu_by_udid lus e) i = 0 \<longleftrightarrow>
              \<not> (\<exists>d \<in> set lus. udid d \<noteq> udid e \<and> cloned_from d i)" .
  show ?thesis
  proof (cases "ref_count (rm_lu_by_udid lus e) i = 0")
    case True
    with rc have none: "\<not> (\<exists>d \<in> set lus. udid d \<noteq> udid e \<and> cloned_from d i)" by simp
    have "filter (\<lambda>lu. udid lu \<noteq> udid e
               \<and> \<not> (cloned_from e lu \<and> \<not> (\<exists>d \<in> set lus. udid d \<noteq> udid e \<and> cloned_from d lu))) lus
      = filter (\<lambda>lu. udid lu \<noteq> udid e \<and> udid lu \<noteq> udid i) lus"
    proof (intro filter_cong refl)
      fix lu assume lu: "lu \<in> set lus"
      from lu i dist have "udid lu \<noteq> udid i \<longleftrightarrow> lu \<noteq> i"
        using distinct_udid_eq by blast
      with cf [OF lu] none
      show "(udid lu \<noteq> udid e
               \<and> \<not> (cloned_from e lu \<and> \<not> (\<exists>d \<in> set lus. udid d \<noteq> udid e \<and> cloned_from d lu)))
          = (udid lu \<noteq> udid e \<and> udid lu \<noteq> udid i)"
        by auto
    qed
    with Some True show ?thesis
      by (simp add: remove_lu_linked_clone_def rm_lu_by_udid_def Let_def conj_commute)
  next
    case False
    with rc have some: "\<exists>d \<in> set lus. udid d \<noteq> udid e \<and> cloned_from d i" by simp
    have "filter (\<lambda>lu. udid lu \<noteq> udid e
               \<and> \<not> (cloned_from e lu \<and> \<not> (\<exists>d \<in> set lus. udid d \<noteq> udid e \<and> cloned_from d lu))) lus
      = filter (\<lambda>lu. udid lu \<noteq> udid e) lus"
    proof (intro filter_cong refl)
      fix lu assume lu: "lu \<in> set lus"
      with cf [OF lu] some
      show "(udid lu \<noteq> udid e
               \<and> \<not> (cloned_from e lu \<and> \<not> (\<exists>d \<in> set lus. udid d \<noteq> udid e \<and> cloned_from d lu)))
          = (udid lu \<noteq> udid e)"
        by auto
    qed
    with Some False show ?thesis
      by (simp add: remove_lu_linked_clone_def rm_lu_by_udid_def Let_def)
  qed
qed

lemma remove_step_snd: "snd (remove_lu_linked_clone False (lus, n) e) = n"
  by (simp add: remove_lu_linked_clone_def Let_def)


text \<open>
  The whole loop: an LU stays unless it is one of the elements, or an image LU that
  an element was cloned from and that no disk LU outside the elements is cloned from.
\<close>

lemma delete_loop_filter:
  assumes dist: "distinct (map udid lus)"
    and uniq: "\<forall>i \<in> set lus. \<forall>j \<in> set lus. lu_type i = IMAGE \<and> lu_type j = IMAGE
                 \<and> drop 2 (udid i) = drop 2 (udid j) \<longrightarrow> i = j"
    and el: "\<forall>e \<in> set es. lu_type e = DISK \<and> (e \<in> set lus \<or> udid e \<notin> udid ` set lus)"
  shows "delete_loop (lus, n) es =
     (filter (\<lambda>lu. udid lu \<notin> udid ` set es
               \<and> \<not> ((\<exists>e \<in> set es. cloned_from e lu)
                    \<and> \<not> (\<exists>d \<in> set lus. udid d \<notin> udid ` set es \<and> cloned_from d lu))) lus, n)"
  using assms
proof (induction es arbitrary: lus)
  case Nil
  then show ?case by simp
next
  case (Cons e es)
  let ?K = "\<lambda>lu. udid lu \<noteq> udid e
               \<and> \<not> (cloned_from e lu \<and> \<not> (\<exists>d \<in> set lus. udid d \<noteq> udid e \<and> cloned_from d lu))"
  let ?lus' = "filter ?K lus"
  from Cons.prems(3) have disk: "lu_type e = DISK" by simp
  have step: "remove_lu_linked_clone False (lus, n) e = (?lus', n)"
    using remove_step [OF Cons.prems(1) Cons.prems(2) disk, of False n]
      remove_step_snd [of lus n e]
    by (simp add: prod_eq_iff)
  have dist': "distinct (map udid ?lus')"
    using Cons.prems(1) by (rule distinct_map_filter)
  have uniq': "\<forall>i \<in> set ?lus'. \<forall>j \<in> set ?lus'. lu_type i = IMAGE \<and> lu_type j = IMAGE
                 \<and> drop 2 (udid i) = drop 2 (udid j) \<longrightarrow> i = j"
    using Cons.prems(2) by simp
  have keep_disk: "d \<in> set ?lus' \<longleftrightarrow> d \<in> set lus \<and> udid d \<noteq> udid e" if "lu_type d = DISK" for d
    using that by (auto simp: cloned_from_def)
  have el': "\<forall>x \<in> set es. lu_type x = DISK \<and> (x \<in> set ?lus' \<or> udid x \<notin> udid ` set ?lus')"
  proof
    fix x assume x: "x \<in> set es"
    with Cons.prems(3) have xd: "lu_type x = DISK" and xin: "x \<in> set lus \<or> udid x \<notin> udid ` set lus"
      by simp_all
    have "x \<in> set ?lus' \<or> udid x \<notin> udid ` set ?lus'"
    proof (cases "udid x = udid e")
      case True
      then have "udid x \<notin> udid ` set ?lus'" by auto
      then show ?thesis ..
    next
      case False
      from xin show ?thesis
      proof
        assume "x \<in> set lus"
        with False keep_disk [OF xd] show ?thesis by blast
      next
        assume "udid x \<notin> udid ` set lus"
        then have "udid x \<notin> udid ` set ?lus'" by auto
        then show ?thesis ..
      qed
    qed
    with xd show "lu_type x = DISK \<and> (x \<in> set ?lus' \<or> udid x \<notin> udid ` set ?lus')" ..
  qed
  have pointwise:
    "(?K lu \<and> udid lu \<notin> udid ` set es
        \<and> \<not> ((\<exists>x \<in> set es. cloned_from x lu)
             \<and> \<not> (\<exists>d \<in> set ?lus'. udid d \<notin> udid ` set es \<and> cloned_from d lu)))
     \<longleftrightarrow> (udid lu \<notin> udid ` set (e # es)
        \<and> \<not> ((\<exists>x \<in> set (e # es). cloned_from x lu)
             \<and> \<not> (\<exists>d \<in> set lus. udid d \<notin> udid ` set (e # es) \<and> cloned_from d lu)))"
    for lu
  proof -
    have R: "(\<exists>d \<in> set ?lus'. udid d \<notin> udid ` set es \<and> cloned_from d lu)
          \<longleftrightarrow> (\<exists>d \<in> set lus. udid d \<notin> udid ` set (e # es) \<and> cloned_from d lu)"
    proof
      assume "\<exists>d \<in> set ?lus'. udid d \<notin> udid ` set es \<and> cloned_from d lu"
      then obtain d where d: "d \<in> set ?lus'" "udid d \<notin> udid ` set es" "cloned_from d lu"
        by blast
      from d(3) have "lu_type d = DISK" by (simp add: cloned_from_def)
      from keep_disk [OF this] d(1) have "d \<in> set lus" "udid d \<noteq> udid e" by blast+
      with d show "\<exists>d \<in> set lus. udid d \<notin> udid ` set (e # es) \<and> cloned_from d lu"
        by auto
    next
      assume "\<exists>d \<in> set lus. udid d \<notin> udid ` set (e # es) \<and> cloned_from d lu"
      then obtain d where d: "d \<in> set lus" "udid d \<notin> udid ` set (e # es)" "cloned_from d lu"
        by blast
      from d(3) have "lu_type d = DISK" by (simp add: cloned_from_def)
      from keep_disk [OF this] d(1) d(2) have "d \<in> set ?lus'" by auto
      with d show "\<exists>d \<in> set ?lus'. udid d \<notin> udid ` set es \<and> cloned_from d lu"
        by auto
    qed
    have refd: "\<exists>x \<in> set es. cloned_from x lu"
      if re: "\<exists>d \<in> set lus. udid d \<noteq> udid e \<and> cloned_from d lu"
        and nr: "\<not> (\<exists>d \<in> set lus. udid d \<notin> udid ` set (e # es) \<and> cloned_from d lu)"
    proof -
      from re obtain d where d: "d \<in> set lus" "udid d \<noteq> udid e" "cloned_from d lu" by blast
      with nr have "udid d \<in> udid ` set (e # es)" by blast
      with d(2) obtain x where x: "x \<in> set es" "udid x = udid d" by auto
      from x(1) Cons.prems(3) have "x \<in> set lus \<or> udid x \<notin> udid ` set lus" by simp
      with x(2) d(1) have "x \<in> set lus" by (metis imageI)
      with d(1) x(2) Cons.prems(1) have "x = d" using distinct_udid_eq by blast
      with d(3) x(1) show ?thesis by blast
    qed
    have U: "udid lu \<notin> udid ` set (e # es) \<longleftrightarrow> udid lu \<noteq> udid e \<and> udid lu \<notin> udid ` set es"
      by auto
    have C: "(\<exists>x \<in> set (e # es). cloned_from x lu)
               \<longleftrightarrow> cloned_from e lu \<or> (\<exists>x \<in> set es. cloned_from x lu)"
      by simp
    have weaker: "(\<exists>d \<in> set lus. udid d \<notin> udid ` set (e # es) \<and> cloned_from d lu)
        \<Longrightarrow> (\<exists>d \<in> set lus. udid d \<noteq> udid e \<and> cloned_from d lu)"
      by auto
    show ?thesis
      unfolding R U C using refd weaker by blast
  qed
  have "delete_loop (lus, n) (e # es) = delete_loop (?lus', n) es"
    by (simp add: step)
  also have "\<dots> = (filter (\<lambda>lu. udid lu \<notin> udid ` set es
               \<and> \<not> ((\<exists>x \<in> set es. cloned_from x lu)
                    \<and> \<not> (\<exists>d \<in> set ?lus'. udid d \<notin> udid ` set es \<and> cloned_from d lu))) ?lus', n)"
    by (rule Cons.IH [OF dist' uniq' el'])
  also have "filter (\<lambda>lu. udid lu \<notin> udid ` set es
               \<and> \<not> ((\<exists>x \<in> set es. cloned_from x lu)
                    \<and> \<not> (\<exists>d \<in> set ?lus'. udid d \<notin> udid ` set es \<and> cloned_from d lu))) ?lus'
      = filter (\<lambda>lu. udid lu \<notin> udid ` set (e # es)
               \<and> \<not> ((\<exists>x \<in> set (e # es). cloned_from x lu)
                    \<and> \<not> (\<exists>d \<in> set lus. udid d \<notin> udid ` set (e # es) \<and> cloned_from d lu))) lus"
    unfolding filter_filter
    by (rule filter_cong [OF refl]) (use pointwise in blast)
  finally show ?case .
qed


text \<open>
  When, in addition, every image LU of the pool has a disk LU cloned from it before
  the call, the image LUs removed are all those from which no remaining disk LU is
  cloned.
\<close>

lemma delete_disks_all_in_use:
  assumes dist: "distinct (map udid lus)"
    and uniq: "\<forall>i \<in> set lus. \<forall>j \<in> set lus. lu_type i = IMAGE \<and> lu_type j = IMAGE
                 \<and> drop 2 (udid i) = drop 2 (udid j) \<longrightarrow> i = j"
    and inuse: "\<forall>img \<in> set lus. lu_type img = IMAGE \<longrightarrow> (\<exists>d \<in> set lus. cloned_from d img)"
    and sub: "set elems \<subseteq> set lus"
    and disks: "\<forall>e \<in> set elems. lu_type e = DISK"
  shows "delete_disks (lus, n) elems =
     (filter (\<lambda>lu. lu \<notin> set elems
               \<and> (lu_type lu = IMAGE \<longrightarrow> (\<exists>d \<in> set lus. d \<notin> set elems \<and> cloned_from d lu))) lus,
      Suc n)"
proof -
  from sub disks
  have el: "\<forall>e \<in> set elems. lu_type e = DISK \<and> (e \<in> set lus \<or> udid e \<notin> udid ` set lus)"
    by blast
  have U: "udid x \<notin> udid ` set elems \<longleftrightarrow> x \<notin> set elems" if "x \<in> set lus" for x
  proof
    assume "udid x \<notin> udid ` set elems"
    then show "x \<notin> set elems" by blast
  next
    assume nx: "x \<notin> set elems"
    show "udid x \<notin> udid ` set elems"
    proof
      assume "udid x \<in> udid ` set elems"
      then obtain e where e: "e \<in> set elems" "udid x = udid e" by blast
      with sub have "e \<in> set lus" by blast
      with that e(2) dist have "x = e" using distinct_udid_eq by blast
      with e(1) nx show False by simp
    qed
  qed
  have pointwise:
    "(udid lu \<notin> udid ` set elems
        \<and> \<not> ((\<exists>e \<in> set elems. cloned_from e lu)
             \<and> \<not> (\<exists>d \<in> set lus. udid d \<notin> udid ` set elems \<and> cloned_from d lu)))
     \<longleftrightarrow> (lu \<notin> set elems
        \<and> (lu_type lu = IMAGE \<longrightarrow> (\<exists>d \<in> set lus. d \<notin> set elems \<and> cloned_from d lu)))"
    if lu: "lu \<in> set lus" for lu
  proof -
    have R: "(\<exists>d \<in> set lus. udid d \<notin> udid ` set elems \<and> cloned_from d lu)
          \<longleftrightarrow> (\<exists>d \<in> set lus. d \<notin> set elems \<and> cloned_from d lu)"
      using U by blast
    have img: "lu_type lu = IMAGE" if "\<exists>e \<in> set elems. cloned_from e lu"
      using that by (auto simp: cloned_from_def)
    have some: "(\<exists>e \<in> set elems. cloned_from e lu) \<or> (\<exists>d \<in> set lus. d \<notin> set elems \<and> cloned_from d lu)"
      if "lu_type lu = IMAGE"
      using that inuse lu by blast
    show ?thesis
      unfolding R U [OF lu] using img some by blast
  qed
  have "delete_loop (lus, n) elems =
     (filter (\<lambda>lu. udid lu \<notin> udid ` set elems
               \<and> \<not> ((\<exists>e \<in> set elems. cloned_from e lu)
                    \<and> \<not> (\<exists>d \<in> set lus. udid d \<notin> udid ` set elems \<and> cloned_from d lu))) lus, n)"
    by (rule delete_loop_filter [OF dist uniq el])
  also have "filter (\<lambda>lu. udid lu \<notin> udid ` set elems
               \<and> \<not> ((\<exists>e \<in> set elems. cloned_from e lu)
                    \<and> \<not> (\<exists>d \<in> set lus. udid d \<notin> udid ` set elems \<and> cloned_from d lu))) lus
      = filter (\<lambda>lu. lu \<notin> set elems
               \<and> (lu_type lu = IMAGE \<longrightarrow> (\<exists>d \<in> set lus. d \<notin> set elems \<and> cloned_from d lu))) lus"
    by (rule filter_cong [OF refl]) (use pointwise in blast)
  finally show ?thesis
    by (simp add: delete_disks_def)
qed




end
